theory Spec2Isabelle
  imports Main "HOL-Library.Word"
begin

section \<open>Strings, numbers and thrown values\<close>

text \<open>
  A JavaScript string is a sequence of UTF-16 code units. String literals of the source
  are ASCII (apart from the em dash of the playlist name) and are written with \<open>lit\<close>.
\<close>

type_synonym jstring = "16 word list"

definition lit :: "string \<Rightarrow> jstring" where
  "lit s = map (\<lambda>c. of_nat (of_char c)) s"

text \<open>
  \<^verbatim>\<open>String.prototype.trim\<close> removes the ECMAScript WhiteSpace and LineTerminator
  code points from both ends.
\<close>

definition is_whitespace :: "16 word \<Rightarrow> bool" where
  "is_whitespace u =
     (u = 0x0009 \<or> u = 0x000A \<or> u = 0x000B \<or> u = 0x000C \<or> u = 0x000D \<or> u = 0x0020 \<or>
      u = 0x00A0 \<or> u = 0x1680 \<or> (0x2000 \<le> u \<and> u \<le> 0x200A) \<or> u = 0x2028 \<or> u = 0x2029 \<or>
      u = 0x202F \<or> u = 0x205F \<or> u = 0x3000 \<or> u = 0xFEFF)"

definition trim :: "jstring \<Rightarrow> jstring" where
  "trim s = rev (dropWhile is_whitespace (rev (dropWhile is_whitespace s)))"

text \<open>
  Years are JavaScript numbers holding finite integers (the request handler obtains them
  from \<^verbatim>\<open>parseInt\<close>, the clock from \<^verbatim>\<open>getFullYear\<close>): the integers that an IEEE 754
  double holds, modelled as \<open>int\<close>. Every integer of magnitude up to \<open>2^53\<close> is one;
  a larger one keeps its 53 leading binary digits. Arithmetic on numbers rounds the exact
  result to the nearest double, a tie going to the one whose last kept digit is even
  (\<open>nearest_double\<close>, on magnitudes; subtracting 1 from a double never overflows).
\<close>

fun bit_length :: "nat \<Rightarrow> nat" where
  "bit_length n = (if n = 0 then 0 else Suc (bit_length (n div 2)))"

declare bit_length.simps [simp del]

definition nearest_double :: "nat \<Rightarrow> nat" where
  "nearest_double m =
     (if m \<le> 2 ^ 53 then m
      else let e = bit_length m - 53; q = m div 2 ^ e; r = m mod 2 ^ e; half = 2 ^ (e - 1)
           in (if half < r \<or> (r = half \<and> odd q) then q + 1 else q) * 2 ^ e)"

definition to_number :: "int \<Rightarrow> int" where
  "to_number i = (if i < 0 then - int (nearest_double (nat (- i))) else int (nearest_double (nat i)))"

text \<open>\<^verbatim>\<open>a - b\<close> on numbers holding integers.\<close>

definition number_minus :: "int \<Rightarrow> int \<Rightarrow> int" where
  "number_minus a b = to_number (a - b)"

text \<open>Interpolating such a number into a template literal prints it in decimal.\<close>

fun digits :: "nat \<Rightarrow> jstring" where
  "digits n = (if n < 10 then [0x30 + of_nat n] else digits (n div 10) @ [0x30 + of_nat (n mod 10)])"

declare digits.simps [simp del]

definition number_toString :: "int \<Rightarrow> jstring" where
  "number_toString i = (if i < 0 then 0x2D # digits (nat (- i)) else digits (nat i))"

text \<open>Values stored in the \<^verbatim>\<open>details\<close> objects of the error classes.\<close>

datatype jsval = Str jstring | Num int | Undefined

type_synonym details = "(string \<times> jsval) list"

text \<open>
  Everything the code can throw or catch: the four error classes of
  \<^verbatim>\<open>error-handler.ts\<close>, an axios error (message and \<^verbatim>\<open>error.response?.status\<close>),
  any other \<^verbatim>\<open>Error\<close> instance, and a thrown value that is not an \<^verbatim>\<open>Error\<close>.
\<close>

datatype thrown =
    AuthenticationError jstring "details option"
  | ExternalAPIError jstring jstring "details option"
  | DataNotFoundError jstring "details option"
  | ValidationError jstring "details option"
  | AxiosError jstring "int option"
  | Error jstring
  | NonError

fun isAxiosError :: "thrown \<Rightarrow> bool" where
  "isAxiosError (AxiosError m st) = True"
| "isAxiosError e = False"

fun instanceof_Error :: "thrown \<Rightarrow> bool" where
  "instanceof_Error NonError = False"
| "instanceof_Error e = True"

fun message :: "thrown \<Rightarrow> jstring" where
  "message (AuthenticationError m d) = m"
| "message (ExternalAPIError m s d) = m"
| "message (DataNotFoundError m d) = m"
| "message (ValidationError m d) = m"
| "message (AxiosError m st) = m"
| "message (Error m) = m"
| "message NonError = []"

fun response_status :: "thrown \<Rightarrow> int option" where
  "response_status (AxiosError m st) = st"
| "response_status e = None"

definition statusCode :: "thrown \<Rightarrow> jsval" where
  "statusCode e = (case response_status e of None \<Rightarrow> Undefined | Some s \<Rightarrow> Num s)"

section \<open>The external services\<close>

text \<open>Response bodies, with the optional members the code tests for.\<close>

record song_json =
  song_name :: jstring

record set_json =
  song :: "song_json list option"

record sets_json =
  set_member :: "set_json list option"

record setlist_json =
  sets :: "sets_json option"

record SetlistFmResponse =
  setlist :: "setlist_json list option"

record track_item =
  uri :: jstring
  track_name :: jstring
  artists :: "jstring list"

record SpotifySearchResponse =
  items :: "track_item list"

record SpotifyUserResponse =
  user_id :: jstring
  display_name :: jstring

record SpotifyPlaylistResponse =
  playlist_id :: jstring
  playlist_name :: jstring
  playlist_public :: bool

record playlist_body =
  body_name :: jstring
  body_public :: bool
  body_description :: jstring

text \<open>
  The HTTP requests the program issues: the setlist.fm query (artist id of the URL,
  \<^verbatim>\<open>year\<close> parameter, API key), the Spotify search (\<^verbatim>\<open>q\<close>, \<^verbatim>\<open>limit\<close>, bearer token),
  the identity query, the playlist creation (user id of the URL, body, token) and the
  population (playlist id of the URL, \<^verbatim>\<open>uris\<close>, token).
\<close>

datatype call =
    GetSetlists jstring int jstring
  | GetSearch jstring nat jstring
  | GetMe jstring
  | PostPlaylist jstring playlist_body jstring
  | PostTracks jstring "jstring list" jstring

text \<open>
  The world outside the program. Each service answers a request in the light of all
  requests issued before it (the first argument), by a response body or by throwing.
  \<open>getFullYear\<close> is the clock and \<open>SETLISTFM_API_KEY\<close> the process environment.
\<close>

record world =
  setlistfm :: "call list \<Rightarrow> jstring \<Rightarrow> int \<Rightarrow> jstring \<Rightarrow> thrown + SetlistFmResponse"
  spotify_search :: "call list \<Rightarrow> jstring \<Rightarrow> nat \<Rightarrow> jstring \<Rightarrow> thrown + SpotifySearchResponse"
  spotify_me :: "call list \<Rightarrow> jstring \<Rightarrow> thrown + SpotifyUserResponse"
  spotify_create :: "call list \<Rightarrow> jstring \<Rightarrow> playlist_body \<Rightarrow> jstring \<Rightarrow> thrown + SpotifyPlaylistResponse"
  spotify_add :: "call list \<Rightarrow> jstring \<Rightarrow> jstring list \<Rightarrow> jstring \<Rightarrow> thrown + unit"
  getFullYear :: "call list \<Rightarrow> int"
  SETLISTFM_API_KEY :: "jstring option"

text \<open>
  An asynchronous function takes the requests issued so far and returns its value, or
  what it threw, with the requests issued by then. \<^verbatim>\<open>logError\<close> only writes to the
  console and is left out.
\<close>

type_synonym 'a io = "call list \<Rightarrow> (thrown + 'a) \<times> call list"

definition return :: "'a \<Rightarrow> 'a io" where
  "return x tr = (Inr x, tr)"

definition throw :: "thrown \<Rightarrow> 'a io" where
  "throw e tr = (Inl e, tr)"

definition bind :: "'a io \<Rightarrow> ('a \<Rightarrow> 'b io) \<Rightarrow> 'b io" where
  "bind m f tr = (case m tr of (Inl e, tr') \<Rightarrow> (Inl e, tr') | (Inr x, tr') \<Rightarrow> f x tr')"

definition try_catch :: "'a io \<Rightarrow> (thrown \<Rightarrow> 'a io) \<Rightarrow> 'a io" where
  "try_catch m h tr = (case m tr of (Inl e, tr') \<Rightarrow> h e tr' | (Inr x, tr') \<Rightarrow> (Inr x, tr'))"

definition request :: "call \<Rightarrow> (call list \<Rightarrow> thrown + 'a) \<Rightarrow> 'a io" where
  "request c answer tr = (answer tr, tr @ [c])"

section \<open>setlist-fetcher.ts\<close>

record SetlistSong =
  name :: jstring
  position :: nat

text \<open>
  A JavaScript \<^verbatim>\<open>Map\<close> iterates in insertion order, and \<^verbatim>\<open>set\<close> on a present key
  keeps the key's place: an association list.
\<close>

type_synonym ('k, 'v) js_map = "('k \<times> 'v) list"

definition map_get :: "('k, 'v) js_map \<Rightarrow> 'k \<Rightarrow> 'v option" where
  "map_get m k = map_of m k"

fun map_set :: "('k, 'v) js_map \<Rightarrow> 'k \<Rightarrow> 'v \<Rightarrow> ('k, 'v) js_map" where
  "map_set [] k v = [(k, v)]"
| "map_set ((k', v') # m) k v = (if k' = k then (k, v) # m else (k', v') # map_set m k v)"

text \<open>\<^verbatim>\<open>songFrequency.get(song.name) || 0\<close>: a missing entry, or a zero, reads as 0.\<close>

definition get_or_zero :: "(jstring, nat) js_map \<Rightarrow> jstring \<Rightarrow> nat" where
  "get_or_zero m k = (case map_get m k of None \<Rightarrow> 0 | Some c \<Rightarrow> if c = 0 then 0 else c)"

definition count_song :: "song_json \<Rightarrow> (jstring, nat) js_map \<Rightarrow> (jstring, nat) js_map" where
  "count_song s m = map_set m (song_name s) (get_or_zero m (song_name s) + 1)"

text \<open>The body of the innermost loop, on the song's name.\<close>

definition count_name :: "jstring \<Rightarrow> (jstring, nat) js_map \<Rightarrow> (jstring, nat) js_map" where
  "count_name n m = map_set m n (get_or_zero m n + 1)"

definition count_set :: "set_json \<Rightarrow> (jstring, nat) js_map \<Rightarrow> (jstring, nat) js_map" where
  "count_set st m = (case song st of None \<Rightarrow> m | Some ss \<Rightarrow> fold count_song ss m)"

definition count_setlist :: "setlist_json \<Rightarrow> (jstring, nat) js_map \<Rightarrow> (jstring, nat) js_map" where
  "count_setlist sl m =
     (case sets sl of None \<Rightarrow> m
      | Some s \<Rightarrow> (case set_member s of None \<Rightarrow> m | Some sts \<Rightarrow> fold count_set sts m))"

definition songFrequency :: "SetlistFmResponse \<Rightarrow> (jstring, nat) js_map" where
  "songFrequency data = (case setlist data of None \<Rightarrow> [] | Some sls \<Rightarrow> fold count_setlist sls [])"

text \<open>
  \<^verbatim>\<open>Array.prototype.sort\<close> with a comparator is stable (ECMAScript 2019), so its result is
  that of any stable sort: here insertion from the right, an element going in front of
  the first one it does not compare greater than.
\<close>

fun sort_insert :: "('a \<Rightarrow> 'a \<Rightarrow> int) \<Rightarrow> 'a \<Rightarrow> 'a list \<Rightarrow> 'a list" where
  "sort_insert cmp x [] = [x]"
| "sort_insert cmp x (y # ys) = (if cmp x y \<le> 0 then x # y # ys else y # sort_insert cmp x ys)"

fun array_sort :: "('a \<Rightarrow> 'a \<Rightarrow> int) \<Rightarrow> 'a list \<Rightarrow> 'a list" where
  "array_sort cmp [] = []"
| "array_sort cmp (x # xs) = sort_insert cmp x (array_sort cmp xs)"

definition by_frequency :: "jstring \<times> nat \<Rightarrow> jstring \<times> nat \<Rightarrow> int" where
  "by_frequency a b = int (snd b) - int (snd a)"

definition sortedSongs :: "SetlistFmResponse \<Rightarrow> SetlistSong list" where
  "sortedSongs data =
     map (\<lambda>(index, entry). \<lparr>name = fst entry, position = index + 1\<rparr>)
       (enumerate 0 (array_sort by_frequency (songFrequency data)))"

definition fetchSetlistForYear :: "world \<Rightarrow> jstring \<Rightarrow> int \<Rightarrow> jstring \<Rightarrow> SetlistSong list io" where
  "fetchSetlistForYear w artistId year apiKey =
     try_catch
       (bind (request (GetSetlists artistId year apiKey) (\<lambda>tr. setlistfm w tr artistId year apiKey))
          (\<lambda>response. return (sortedSongs response)))
       (\<lambda>error.
          if isAxiosError error then
            throw (ExternalAPIError (lit ''setlist.fm API request failed: '' @ message error)
                     (lit ''setlist.fm'') (Some [(''statusCode'', statusCode error), (''year'', Num year)]))
          else throw error)"

record AverageSetlistParams =
  params_artistId :: jstring
  params_year :: "int option"

fun instanceof_ExternalAPIError :: "thrown \<Rightarrow> bool" where
  "instanceof_ExternalAPIError (ExternalAPIError m s d) = True"
| "instanceof_ExternalAPIError e = False"

fun instanceof_DataNotFoundError :: "thrown \<Rightarrow> bool" where
  "instanceof_DataNotFoundError (DataNotFoundError m d) = True"
| "instanceof_DataNotFoundError e = False"

fun instanceof_AuthenticationError :: "thrown \<Rightarrow> bool" where
  "instanceof_AuthenticationError (AuthenticationError m d) = True"
| "instanceof_AuthenticationError e = False"

definition getAverageSetlist :: "world \<Rightarrow> AverageSetlistParams \<Rightarrow> jstring \<Rightarrow> SetlistSong list io" where
  "getAverageSetlist w params apiKey tr =
     (let artistId = params_artistId params;
          targetYear = (case params_year params of None \<Rightarrow> getFullYear w tr | Some y \<Rightarrow> y)
      in try_catch
           (bind (fetchSetlistForYear w artistId targetYear apiKey)
              (\<lambda>songs.
                 if length songs = 0 then
                   (let retryYear = number_minus targetYear 1
                    in bind (fetchSetlistForYear w artistId retryYear apiKey)
                         (\<lambda>retrySongs.
                            if length retrySongs = 0 then
                              throw (DataNotFoundError
                                (lit ''No setlist data found for artist '' @ artistId @ lit '' in years ''
                                   @ number_toString targetYear @ lit '' or '' @ number_toString retryYear)
                                (Some [(''artistId'', Str artistId), (''targetYear'', Num targetYear),
                                       (''retryYear'', Num retryYear)]))
                            else return retrySongs))
                 else return songs))
           (\<lambda>error.
              if instanceof_ExternalAPIError error \<or> instanceof_DataNotFoundError error then throw error
              else if isAxiosError error then
                throw (ExternalAPIError (lit ''setlist.fm API is unavailable: '' @ message error)
                         (lit ''setlist.fm'') (Some [(''statusCode'', statusCode error)]))
              else if instanceof_Error error then
                throw (ExternalAPIError (lit ''Failed to fetch setlist: '' @ message error)
                         (lit ''setlist.fm'') None)
              else throw (ExternalAPIError (lit ''Failed to fetch setlist with unknown error'')
                            (lit ''setlist.fm'') None))
           tr)"

section \<open>track-matcher.ts\<close>

record TrackSearchResult =
  songName :: jstring
  trackUri :: "jstring option"
  found :: bool

definition search_query :: "jstring \<Rightarrow> jstring \<Rightarrow> jstring" where
  "search_query title artistName = lit ''track:'' @ title @ lit '' artist:'' @ artistName"

definition searchSpotifyTrack :: "world \<Rightarrow> jstring \<Rightarrow> jstring \<Rightarrow> jstring \<Rightarrow> TrackSearchResult io" where
  "searchSpotifyTrack w title artistName accessToken =
     try_catch
       (let query = search_query title artistName
        in bind (request (GetSearch query 1 accessToken) (\<lambda>tr. spotify_search w tr query 1 accessToken))
             (\<lambda>response.
                if length (items response) > 0 then
                  (let track = items response ! 0
                   in return \<lparr>songName = title, trackUri = Some (uri track), found = True\<rparr>)
                else return \<lparr>songName = title, trackUri = None, found = False\<rparr>))
       (\<lambda>error.
          if isAxiosError error \<and> response_status error = Some 401 then
            throw (AuthenticationError (lit ''Invalid or expired access token'')
                     (Some [(''statusCode'', statusCode error)]))
          else return \<lparr>songName = title, trackUri = None, found = False\<rparr>)"

text \<open>The \<^verbatim>\<open>for\<close> loop of \<^verbatim>\<open>matchAllTracks\<close>, with the \<^verbatim>\<open>results\<close> array it pushes to.\<close>

fun matchAllTracks_loop ::
  "world \<Rightarrow> SetlistSong list \<Rightarrow> jstring \<Rightarrow> jstring \<Rightarrow> TrackSearchResult list \<Rightarrow> TrackSearchResult list io"
where
  "matchAllTracks_loop w [] artistName accessToken results tr = (Inr results, tr)"
| "matchAllTracks_loop w (s # songs) artistName accessToken results tr =
     (case searchSpotifyTrack w (name s) artistName accessToken tr of
        (Inl e, tr') \<Rightarrow> (Inl e, tr')
      | (Inr result, tr') \<Rightarrow> matchAllTracks_loop w songs artistName accessToken (results @ [result]) tr')"

definition matchAllTracks :: "world \<Rightarrow> SetlistSong list \<Rightarrow> jstring \<Rightarrow> jstring \<Rightarrow> TrackSearchResult list io" where
  "matchAllTracks w songs artistName accessToken = matchAllTracks_loop w songs artistName accessToken []"

section \<open>playlist-creator.ts\<close>

record PlaylistCreationParams =
  p_artistName :: jstring
  p_year :: int
  p_trackUris :: "jstring list"
  p_accessToken :: jstring

record PlaylistCreationResult =
  playlistId :: jstring
  tracksAdded :: nat
  year :: int

text \<open>The \<^verbatim>\<open>catch\<close> block shared by the three Spotify requests of this file.\<close>

definition spotify_catch :: "thrown \<Rightarrow> 'a io" where
  "spotify_catch error =
     (if isAxiosError error then
        if response_status error = Some 401 then
          throw (AuthenticationError (lit ''Invalid or expired access token'')
                   (Some [(''statusCode'', statusCode error)]))
        else throw (ExternalAPIError (lit ''Spotify API is unavailable: '' @ message error)
                      (lit ''Spotify'') (Some [(''statusCode'', statusCode error)]))
      else throw error)"

definition getUserId :: "world \<Rightarrow> jstring \<Rightarrow> jstring io" where
  "getUserId w accessToken =
     try_catch
       (bind (request (GetMe accessToken) (\<lambda>tr. spotify_me w tr accessToken))
          (\<lambda>response. return (user_id response)))
       spotify_catch"

definition createSpotifyPlaylist :: "world \<Rightarrow> jstring \<Rightarrow> jstring \<Rightarrow> int \<Rightarrow> jstring \<Rightarrow> jstring io" where
  "createSpotifyPlaylist w userId artistName yr accessToken =
     try_catch
       (let playlistName = artistName @ lit '' '' @ [0x2014] @ lit '' Average Setlist '' @ number_toString yr;
            body = \<lparr>body_name = playlistName, body_public = False,
                    body_description = lit ''Average setlist for '' @ artistName @ lit '' in ''
                                         @ number_toString yr\<rparr>
        in bind (request (PostPlaylist userId body accessToken)
                   (\<lambda>tr. spotify_create w tr userId body accessToken))
             (\<lambda>response. return (playlist_id response)))
       spotify_catch"

definition addTracksToPlaylist :: "world \<Rightarrow> jstring \<Rightarrow> jstring list \<Rightarrow> jstring \<Rightarrow> unit io" where
  "addTracksToPlaylist w pid trackUris accessToken =
     (if length trackUris = 0 then return ()
      else try_catch
             (request (PostTracks pid trackUris accessToken)
                (\<lambda>tr. spotify_add w tr pid trackUris accessToken))
             spotify_catch)"

definition createPlaylist :: "world \<Rightarrow> PlaylistCreationParams \<Rightarrow> PlaylistCreationResult io" where
  "createPlaylist w params =
     (let artistName = p_artistName params; yr = p_year params;
          trackUris = p_trackUris params; accessToken = p_accessToken params
      in try_catch
           (bind (getUserId w accessToken)
              (\<lambda>userId. bind (createSpotifyPlaylist w userId artistName yr accessToken)
                 (\<lambda>pid. bind (addTracksToPlaylist w pid trackUris accessToken)
                    (\<lambda>_. return \<lparr>playlistId = pid, tracksAdded = length trackUris, year = yr\<rparr>))))
           (\<lambda>error.
              if instanceof_AuthenticationError error \<or> instanceof_ExternalAPIError error then throw error
              else if instanceof_Error error then
                throw (Error (lit ''Failed to create playlist: '' @ message error))
              else throw (Error (lit ''Failed to create playlist with unknown error''))))"

section \<open>index.ts\<close>

text \<open>
  The members of the request are declared as strings, but the function tests at run time
  whether they are there: \<open>None\<close> is a member that is missing (\<^verbatim>\<open>undefined\<close>).
\<close>

record CreatePlaylistRequest =
  req_artistId :: "jstring option"
  req_artistName :: "jstring option"
  req_year :: "int option"
  req_accessToken :: "jstring option"

text \<open>\<^verbatim>\<open>!s\<close> for a string that may be missing, and the string itself once it is known to be there.\<close>

definition falsy :: "jstring option \<Rightarrow> bool" where
  "falsy v = (case v of None \<Rightarrow> True | Some s \<Rightarrow> s = [])"

definition string_of :: "jstring option \<Rightarrow> jstring" where
  "string_of v = (case v of None \<Rightarrow> [] | Some s \<Rightarrow> s)"

definition handleCreatePlaylist :: "world \<Rightarrow> CreatePlaylistRequest \<Rightarrow> PlaylistCreationResult io" where
  "handleCreatePlaylist w req =
     (let artistId = req_artistId req; artistName = req_artistName req;
          yr = req_year req; accessToken = req_accessToken req
      in if falsy accessToken \<or> trim (string_of accessToken) = [] then
           throw (ValidationError (lit ''Access token is required'')
                    (Some [(''field'', Str (lit ''accessToken''))]))
         else if falsy artistId \<or> trim (string_of artistId) = [] then
           throw (ValidationError (lit ''Artist ID is required'')
                    (Some [(''field'', Str (lit ''artistId''))]))
         else if falsy artistName \<or> trim (string_of artistName) = [] then
           throw (ValidationError (lit ''Artist name is required'')
                    (Some [(''field'', Str (lit ''artistName''))]))
         else
           try_catch
             (let setlistParams = \<lparr>params_artistId = string_of artistId, params_year = yr\<rparr>;
                  apiKey = SETLISTFM_API_KEY w
              in if falsy apiKey then
                   throw (ValidationError (lit ''setlist.fm API key is not configured'')
                            (Some [(''field'', Str (lit ''SETLISTFM_API_KEY''))]))
                 else
                   bind (getAverageSetlist w setlistParams (string_of apiKey))
                     (\<lambda>songs. bind (matchAllTracks w songs (string_of artistName) (string_of accessToken))
                        (\<lambda>trackResults tr.
                           (let trackUris =
                                  map (\<lambda>result. string_of (trackUri result))
                                    (filter (\<lambda>result. found result \<and> trackUri result \<noteq> None) trackResults);
                                actualYear = (case yr of None \<Rightarrow> getFullYear w tr | Some y \<Rightarrow> y)
                            in createPlaylist w
                                 \<lparr>p_artistName = string_of artistName, p_year = actualYear,
                                  p_trackUris = trackUris, p_accessToken = string_of accessToken\<rparr> tr))))
             (\<lambda>error.
                if instanceof_Error error then throw error
                else throw (Error (lit ''An unexpected error occurred''))))"

section \<open>Notions of the specification\<close>

text \<open>The song names of a response in the order they were played, over all performances and sets.\<close>

definition songs_of_set :: "set_json \<Rightarrow> jstring list" where
  "songs_of_set st = (case song st of None \<Rightarrow> [] | Some ss \<Rightarrow> map song_name ss)"

definition songs_of_setlist :: "setlist_json \<Rightarrow> jstring list" where
  "songs_of_setlist sl =
     (case sets sl of None \<Rightarrow> []
      | Some s \<Rightarrow> (case set_member s of None \<Rightarrow> [] | Some sts \<Rightarrow> concat (map songs_of_set sts)))"

definition songs_played :: "SetlistFmResponse \<Rightarrow> jstring list" where
  "songs_played data = (case setlist data of None \<Rightarrow> [] | Some sls \<Rightarrow> concat (map songs_of_setlist sls))"

text \<open>Where a song is first observed, and the ranking order: more frequent first, ties by first observation.\<close>

definition first_seen :: "'a list \<Rightarrow> 'a \<Rightarrow> nat" where
  "first_seen xs x = length (takeWhile (\<lambda>y. y \<noteq> x) xs)"

definition ranks_before :: "'a list \<Rightarrow> 'a \<Rightarrow> 'a \<Rightarrow> bool" where
  "ranks_before xs a b =
     (count_list xs b < count_list xs a \<or>
      (count_list xs a = count_list xs b \<and> first_seen xs a < first_seen xs b))"

text \<open>
  The request at index \<open>k\<close> of a trace is a catalog lookup that was answered with an
  authentication failure (an axios error of status 401).
\<close>

definition unauthorized :: "thrown + 'a \<Rightarrow> bool" where
  "unauthorized r = (case r of Inl e \<Rightarrow> isAxiosError e \<and> response_status e = Some 401 | Inr x \<Rightarrow> False)"

definition lookup_unauthorized :: "world \<Rightarrow> call list \<Rightarrow> nat \<Rightarrow> bool" where
  "lookup_unauthorized w tr k =
     (case tr ! k of GetSearch q n tok \<Rightarrow> unauthorized (spotify_search w (take k tr) q n tok) | _ \<Rightarrow> False)"

fun is_lookup :: "call \<Rightarrow> bool" where
  "is_lookup (GetSearch q n tok) = True"
| "is_lookup c = False"

fun is_playlist_call :: "call \<Rightarrow> bool" where
  "is_playlist_call (GetMe tok) = True"
| "is_playlist_call (PostPlaylist u b tok) = True"
| "is_playlist_call (PostTracks p us tok) = True"
| "is_playlist_call c = False"

text \<open>A request member that is missing or blank after trimming.\<close>

definition blank :: "jstring option \<Rightarrow> bool" where
  "blank v = (case v of None \<Rightarrow> True | Some s \<Rightarrow> trim s = [])"

text \<open>The playlist title of the specification: artist, space, em dash, space, the fixed words, the year.\<close>

definition playlist_title :: "jstring \<Rightarrow> int \<Rightarrow> jstring" where
  "playlist_title artistName yr =
     artistName @ [0x0020, 0x2014, 0x0020] @ lit ''Average Setlist'' @ [0x0020] @ number_toString yr"

text \<open>The same order on the entries of the frequency map, for any measure of first observation.\<close>

definition entry_before :: "('a \<Rightarrow> nat) \<Rightarrow> 'a \<times> nat \<Rightarrow> 'a \<times> nat \<Rightarrow> bool" where
  "entry_before seen a b = (snd b < snd a \<or> (snd a = snd b \<and> seen (fst a) < seen (fst b)))"

text \<open>The safe integers (\<^verbatim>\<open>Number.isSafeInteger\<close>): those of magnitude below \<open>2^53\<close>.\<close>

definition safe_integer :: "int \<Rightarrow> bool" where
  "safe_integer i = (- (2 ^ 53) < i \<and> i < 2 ^ 53)"

text \<open>The failure for an artist without data in a year and the year before: it names the artist and both years.\<close>

definition no_data_error :: "jstring \<Rightarrow> int \<Rightarrow> int \<Rightarrow> thrown" where
  "no_data_error artistId y1 y2 =
     DataNotFoundError
       (lit ''No setlist data found for artist '' @ artistId @ lit '' in years '' @ number_toString y1
          @ lit '' or '' @ number_toString y2)
       (Some [(''artistId'', Str artistId), (''targetYear'', Num y1), (''retryYear'', Num y2)])"

text \<open>The result for a song without a track, the lookup request for a song, and the authentication failure.\<close>

definition unresolved :: "jstring \<Rightarrow> TrackSearchResult" where
  "unresolved title = \<lparr>songName = title, trackUri = None, found = False\<rparr>"

definition lookup :: "jstring \<Rightarrow> jstring \<Rightarrow> SetlistSong \<Rightarrow> call" where
  "lookup artistName accessToken s = GetSearch (search_query (name s) artistName) 1 accessToken"

definition token_rejected :: thrown where
  "token_rejected = AuthenticationError (lit ''Invalid or expired access token'') (Some [(''statusCode'', Num 401)])"

text \<open>The creation request for an artist and a year: the title, private, and the description.\<close>

definition playlist_request :: "jstring \<Rightarrow> int \<Rightarrow> playlist_body" where
  "playlist_request artistName yr =
     \<lparr>body_name = playlist_title artistName yr, body_public = False,
      body_description = lit ''Average setlist for '' @ artistName @ lit '' in '' @ number_toString yr\<rparr>"

text \<open>What the \<^verbatim>\<open>catch\<close> blocks of the playlist creator and of the orchestrator rethrow.\<close>

definition spotify_failure :: "thrown \<Rightarrow> thrown" where
  "spotify_failure error =
     (if isAxiosError error then
        if response_status error = Some 401 then token_rejected
        else ExternalAPIError (lit ''Spotify API is unavailable: '' @ message error)
               (lit ''Spotify'') (Some [(''statusCode'', statusCode error)])
      else error)"

definition playlist_failure :: "thrown \<Rightarrow> thrown" where
  "playlist_failure error =
     (if instanceof_AuthenticationError error \<or> instanceof_ExternalAPIError error then error
      else if instanceof_Error error then Error (lit ''Failed to create playlist: '' @ message error)
      else Error (lit ''Failed to create playlist with unknown error''))"

definition unexpected :: "thrown \<Rightarrow> thrown" where
  "unexpected error = (if instanceof_Error error then error else Error (lit ''An unexpected error occurred''))"

text \<open>The stages of a run of \<open>handleCreatePlaylist\<close> on a request, and the parameters it builds the playlist with.\<close>

definition playlist_params :: "world \<Rightarrow> CreatePlaylistRequest \<Rightarrow> TrackSearchResult list \<Rightarrow> call list \<Rightarrow> PlaylistCreationParams" where
  "playlist_params w req trackResults tr =
     \<lparr>p_artistName = string_of (req_artistName req),
      p_year = (case req_year req of None \<Rightarrow> getFullYear w tr | Some y \<Rightarrow> y),
      p_trackUris = map (\<lambda>result. string_of (trackUri result))
                      (filter (\<lambda>result. found result \<and> trackUri result \<noteq> None) trackResults),
      p_accessToken = string_of (req_accessToken req)\<rparr>"

definition aggregate :: "world \<Rightarrow> CreatePlaylistRequest \<Rightarrow> SetlistSong list io" where
  "aggregate w req =
     getAverageSetlist w \<lparr>params_artistId = string_of (req_artistId req), params_year = req_year req\<rparr>
       (string_of (SETLISTFM_API_KEY w))"

definition resolve :: "world \<Rightarrow> CreatePlaylistRequest \<Rightarrow> SetlistSong list \<Rightarrow> TrackSearchResult list io" where
  "resolve w req songs =
     matchAllTracks w songs (string_of (req_artistName req)) (string_of (req_accessToken req))"

definition build :: "world \<Rightarrow> CreatePlaylistRequest \<Rightarrow> TrackSearchResult list \<Rightarrow> PlaylistCreationResult io" where
  "build w req trackResults tr = createPlaylist w (playlist_params w req trackResults tr) tr"

section \<open>An example world\<close>

text \<open>
  Three performances with the songs A B A, A C and B (and a set without songs) in 2023,
  nothing in any other year; a catalog that answers every query with one track, except
  the query for song B of artist M, whose answer is a parameter; the clock in 2024.
\<close>

definition performance :: "string list \<Rightarrow> setlist_json" where
  "performance ns = \<lparr>sets = Some \<lparr>set_member = Some [\<lparr>song = Some (map (\<lambda>n. \<lparr>song_name = lit n\<rparr>) ns)\<rparr>]\<rparr>\<rparr>"

definition example_setlists :: SetlistFmResponse where
  "example_setlists =
     \<lparr>setlist = Some [performance [''A'', ''B'', ''A''], performance [''A'', ''C''], performance [''B''],
                      performance []]\<rparr>"

definition example_catalog :: "(thrown + SpotifySearchResponse) \<Rightarrow> jstring \<Rightarrow> thrown + SpotifySearchResponse" where
  "example_catalog answer_B q =
     (if q = search_query (lit ''B'') (lit ''M'') then answer_B
      else Inr \<lparr>items = [\<lparr>uri = lit ''u:'' @ q, track_name = q, artists = [lit ''M'']\<rparr>]\<rparr>)"

definition example_world :: "(thrown + SpotifySearchResponse) \<Rightarrow> world" where
  "example_world answer_B =
     \<lparr>setlistfm = (\<lambda>tr artistId y apiKey.
         Inr (if y = 2023 then example_setlists else \<lparr>setlist = Some [performance []]\<rparr>)),
      spotify_search = (\<lambda>tr q n tok. example_catalog answer_B q),
      spotify_me = (\<lambda>tr tok. Inr \<lparr>user_id = lit ''u1'', display_name = lit ''U''\<rparr>),
      spotify_create = (\<lambda>tr userId body tok.
         Inr \<lparr>playlist_id = lit ''p1'', playlist_name = body_name body, playlist_public = body_public body\<rparr>),
      spotify_add = (\<lambda>tr pid uris tok. Inr ()),
      getFullYear = (\<lambda>tr. 2024),
      SETLISTFM_API_KEY = Some (lit ''k'')\<rparr>"

definition no_track :: "thrown + SpotifySearchResponse" where
  "no_track = Inr \<lparr>items = []\<rparr>"

definition status_error :: "int \<Rightarrow> thrown + SpotifySearchResponse" where
  "status_error st = Inl (AxiosError (lit ''Request failed'') (Some st))"

definition example_songs :: "SetlistSong list" where
  "example_songs = [\<lparr>name = lit ''A'', position = 1\<rparr>, \<lparr>name = lit ''B'', position = 2\<rparr>, \<lparr>name = lit ''C'', position = 3\<rparr>]"

definition example_track :: "string \<Rightarrow> TrackSearchResult" where
  "example_track n = \<lparr>songName = lit n, trackUri = Some (lit ''u:'' @ search_query (lit n) (lit ''M'')), found = True\<rparr>"

text \<open>The request for artist M without a year, and the requests of its run.\<close>

definition example_request :: "int option \<Rightarrow> CreatePlaylistRequest" where
  "example_request yr =
     \<lparr>req_artistId = Some (lit ''a1''), req_artistName = Some (lit ''M''), req_year = yr,
      req_accessToken = Some (lit ''t'')\<rparr>"

definition example_fetches :: "call list" where
  "example_fetches = [GetSetlists (lit ''a1'') 2024 (lit ''k''), GetSetlists (lit ''a1'') 2023 (lit ''k'')]"

definition example_lookups :: "call list" where
  "example_lookups = map (lookup (lit ''M'') (lit ''t'')) example_songs"

definition example_uris :: "jstring list" where
  "example_uris = [lit ''u:'' @ search_query (lit ''A'') (lit ''M''), lit ''u:'' @ search_query (lit ''C'') (lit ''M'')]"

definition example_playlist_calls :: "int \<Rightarrow> jstring list \<Rightarrow> call list" where
  "example_playlist_calls y uris =
     [GetMe (lit ''t''), PostPlaylist (lit ''u1'') (playlist_request (lit ''M'') y) (lit ''t'')]
     @ (if uris = [] then [] else [PostTracks (lit ''p1'') uris (lit ''t'')])"

section \<open>The aggregator\<close>

subsection \<open>The frequency map\<close>

lemma map_of_map_set: "map_of (map_set m k v) = (map_of m)(k \<mapsto> v)"
  by (induction m) (auto simp: fun_eq_iff)

lemma keys_map_set:
  "map fst (map_set m k v) = (if k \<in> set (map fst m) then map fst m else map fst m @ [k])"
  by (induction m) force+

lemma map_of_count_name:
  "map_of (count_name x m) = (map_of m)(x \<mapsto> get_or_zero m x + 1)"
  by (simp add: count_name_def map_of_map_set)

lemma keys_count_name:
  "map fst (count_name x m) = (if x \<in> set (map fst m) then map fst m else map fst m @ [x])"
  by (simp add: count_name_def keys_map_set del: set_map)

text \<open>The nested loops visit the songs in the order they were played.\<close>

lemma count_song_name: "count_song = (\<lambda>s. count_name (song_name s))"
  by (simp add: fun_eq_iff count_song_def count_name_def)

lemma count_set_flat: "count_set st m = fold count_name (songs_of_set st) m"
  by (simp add: count_set_def songs_of_set_def fold_map count_song_name comp_def split: option.splits)

lemma fold_count_set_flat:
  "fold count_set sts m = fold count_name (concat (map songs_of_set sts)) m"
  by (induction sts arbitrary: m) (simp_all add: count_set_flat)

lemma count_setlist_flat: "count_setlist sl m = fold count_name (songs_of_setlist sl) m"
  by (simp add: count_setlist_def songs_of_setlist_def fold_count_set_flat split: option.splits)

lemma fold_count_setlist_flat:
  "fold count_setlist sls m = fold count_name (concat (map songs_of_setlist sls)) m"
  by (induction sls arbitrary: m) (simp_all add: count_setlist_flat)

lemma songFrequency_flat: "songFrequency data = fold count_name (songs_played data) []"
  by (simp add: songFrequency_def songs_played_def fold_count_setlist_flat split: option.splits)

lemma map_of_counted:
  "map_of (fold count_name xs []) n = (if n \<in> set xs then Some (count_list xs n) else None)"
proof (induction xs arbitrary: n rule: rev_induct)
  case Nil
  show ?case by simp
next
  case (snoc x xs)
  have "get_or_zero (fold count_name xs []) x = count_list xs x"
    by (simp add: snoc get_or_zero_def map_get_def count_list_0_iff)
  then show ?case
    by (simp add: map_of_count_name snoc)
qed

lemma keys_counted_set: "set (map fst (fold count_name xs [])) = set xs"
  by (induction xs rule: rev_induct) (auto simp: keys_count_name simp del: set_map)

lemma keys_counted_distinct: "distinct (map fst (fold count_name xs []))"
  by (induction xs rule: rev_induct) (simp_all add: keys_count_name keys_counted_set del: set_map)

lemma counted_values:
  "e \<in> set (fold count_name xs []) \<Longrightarrow> snd e = count_list xs (fst e)"
  using map_of_counted[of xs "fst e"] keys_counted_distinct[of xs]
  by (cases e) (auto split: if_splits)

lemma first_seen_snoc_old: "a \<in> set xs \<Longrightarrow> first_seen (xs @ [x]) a = first_seen xs a"
  by (simp add: first_seen_def takeWhile_append1)

lemma first_seen_bound: "a \<in> set xs \<Longrightarrow> first_seen xs a < length xs"
  unfolding first_seen_def by (induction xs) auto

lemma first_seen_snoc_new: "x \<notin> set xs \<Longrightarrow> first_seen (xs @ [x]) x = length xs"
proof -
  have "takeWhile (\<lambda>y. y \<noteq> x) xs = xs" if "x \<notin> set xs"
    using that by (induction xs) auto
  then show "x \<notin> set xs \<Longrightarrow> first_seen (xs @ [x]) x = length xs"
    by (simp add: first_seen_def takeWhile_append2)
qed

lemma keys_counted_order:
  "sorted_wrt (\<lambda>a b. first_seen xs a < first_seen xs b) (map fst (fold count_name xs []))"
proof (induction xs rule: rev_induct)
  case Nil
  show ?case by simp
next
  case (snoc x xs)
  let ?ks = "map fst (fold count_name xs [])"
  have old: "sorted_wrt (\<lambda>a b. first_seen (xs @ [x]) a < first_seen (xs @ [x]) b) ?ks"
    using snoc by (rule sorted_wrt_mono_rel[rotated]) (simp add: keys_counted_set first_seen_snoc_old del: set_map)
  show ?case
  proof (cases "x \<in> set xs")
    case True
    with old show ?thesis by (simp add: keys_count_name keys_counted_set del: set_map)
  next
    case False
    with old show ?thesis
      by (simp add: keys_count_name keys_counted_set sorted_wrt_append
          first_seen_snoc_old first_seen_snoc_new first_seen_bound del: set_map)
  qed
qed

subsection \<open>The sort\<close>

lemma set_sort_insert: "set (sort_insert cmp x ys) = insert x (set ys)"
  by (induction ys) auto

lemma set_array_sort: "set (array_sort cmp xs) = set xs"
  by (induction xs) (simp_all add: set_sort_insert)

lemma length_sort_insert: "length (sort_insert cmp x ys) = Suc (length ys)"
  by (induction ys) auto

lemma length_array_sort: "length (array_sort cmp xs) = length xs"
  by (induction xs) (simp_all add: length_sort_insert)

lemma distinct_sort_insert:
  "distinct (map f (sort_insert cmp x ys)) = (f x \<notin> f ` set ys \<and> distinct (map f ys))"
  by (induction ys) (auto simp: set_sort_insert)

lemma distinct_array_sort: "distinct (map f (array_sort cmp xs)) = distinct (map f xs)"
  by (induction xs) (simp_all add: distinct_sort_insert set_array_sort)

lemma sorted_sort_insert:
  "sorted_wrt (entry_before seen) ys \<Longrightarrow> \<forall>y\<in>set ys. seen (fst x) < seen (fst y) \<Longrightarrow>
   sorted_wrt (entry_before seen) (sort_insert by_frequency x ys)"
proof (induction ys)
  case Nil
  show ?case by simp
next
  case (Cons y ys)
  show ?case
  proof (cases "by_frequency x y \<le> 0")
    case True
    have "entry_before seen x z" if "z \<in> set (y # ys)" for z
    proof -
      have "snd z \<le> snd y"
        using that Cons.prems(1) by (auto simp: entry_before_def)
      moreover have "snd y \<le> snd x"
        using True by (simp add: by_frequency_def)
      moreover have "seen (fst x) < seen (fst z)"
        using that Cons.prems(2) by auto
      ultimately show ?thesis by (auto simp: entry_before_def)
    qed
    with True Cons.prems(1) show ?thesis by simp
  next
    case False
    then have "entry_before seen y x"
      by (simp add: entry_before_def by_frequency_def)
    with False Cons show ?thesis
      by (auto simp: set_sort_insert)
  qed
qed

lemma sorted_array_sort:
  "sorted_wrt (\<lambda>a b. seen (fst a) < seen (fst b)) es \<Longrightarrow>
   sorted_wrt (entry_before seen) (array_sort by_frequency es)"
  by (induction es) (simp_all add: sorted_sort_insert set_array_sort)

subsection \<open>The ranked songs\<close>

lemma names_sortedSongs:
  "map name (sortedSongs data) = map fst (array_sort by_frequency (songFrequency data))"
  by (simp add: sortedSongs_def enumerate_eq_zip comp_def split_def flip: map_map[of fst snd, unfolded comp_def])

lemma positions_sortedSongs:
  "map position (sortedSongs data) = [1..<Suc (length (songFrequency data))]"
proof -
  let ?es = "array_sort by_frequency (songFrequency data)"
  have "map position (sortedSongs data) = map (\<lambda>p. Suc (fst p)) (enumerate 0 ?es)"
    by (simp add: sortedSongs_def comp_def split_def)
  also have "\<dots> = map Suc (map fst (enumerate 0 ?es))"
    by (simp only: map_map comp_def)
  also have "map fst (enumerate 0 ?es) = [0..<length ?es]"
    by (simp only: map_fst_enumerate add_0)
  also have "map Suc [0..<length ?es] = [1..<Suc (length ?es)]"
    by (simp only: map_Suc_upt One_nat_def)
  finally show ?thesis
    by (simp only: length_array_sort)
qed

lemma length_songFrequency: "length (songFrequency data) = card (set (songs_played data))"
  using distinct_card[OF keys_counted_distinct, of "songs_played data"]
  by (simp add: songFrequency_flat keys_counted_set del: set_map)

lemma length_sortedSongs: "length (sortedSongs data) = card (set (songs_played data))"
  by (simp add: sortedSongs_def length_array_sort length_songFrequency)

lemma set_names_sortedSongs: "set (map name (sortedSongs data)) = set (songs_played data)"
  using keys_counted_set[of "songs_played data"]
  by (simp add: names_sortedSongs set_array_sort songFrequency_flat del: map_map)

lemma distinct_names_sortedSongs: "distinct (map name (sortedSongs data))"
  by (simp add: names_sortedSongs distinct_array_sort songFrequency_flat keys_counted_distinct)

lemma ranking_sortedSongs:
  "sorted_wrt (ranks_before (songs_played data)) (map name (sortedSongs data))"
proof -
  let ?xs = "songs_played data"
  have "sorted_wrt (\<lambda>a b. first_seen ?xs (fst a) < first_seen ?xs (fst b)) (songFrequency data)"
    using keys_counted_order[of ?xs] by (simp add: songFrequency_flat sorted_wrt_map)
  then have "sorted_wrt (entry_before (first_seen ?xs)) (array_sort by_frequency (songFrequency data))"
    by (rule sorted_array_sort)
  then have "sorted_wrt (\<lambda>a b. ranks_before ?xs (fst a) (fst b)) (array_sort by_frequency (songFrequency data))"
    by (rule sorted_wrt_mono_rel[rotated])
       (auto simp: set_array_sort entry_before_def ranks_before_def songFrequency_flat dest!: counted_values)
  then show ?thesis
    by (simp add: names_sortedSongs sorted_wrt_map)
qed

lemma fetchSetlistForYear_ok:
  "setlistfm w tr artistId y apiKey = Inr data \<Longrightarrow>
   fetchSetlistForYear w artistId y apiKey tr = (Inr (sortedSongs data), tr @ [GetSetlists artistId y apiKey])"
  by (simp add: fetchSetlistForYear_def try_catch_def bind_def request_def return_def)

text \<open>
  C1. Whatever records the fetch for a year returns, \<open>fetchSetlistForYear\<close> counts every
  occurrence of every song name over all records and sets (a set without songs adds
  nothing, a song repeated in one performance counts each time), and returns the distinct
  names once each, the more frequent first and equally frequent ones in the order they were
  first observed, with the positions 1 to N for N distinct names.
\<close>

theorem fetchSetlistForYear_ranks_by_frequency:
  assumes "setlistfm w tr artistId y apiKey = Inr data"
  shows "\<exists>songs. fetchSetlistForYear w artistId y apiKey tr = (Inr songs, tr @ [GetSetlists artistId y apiKey])
           \<and> songs = sortedSongs data
           \<and> (\<forall>n. map_get (songFrequency data) n =
                 (if n \<in> set (songs_played data) then Some (count_list (songs_played data) n) else None))
           \<and> set (map name songs) = set (songs_played data)
           \<and> distinct (map name songs)
           \<and> sorted_wrt (ranks_before (songs_played data)) (map name songs)
           \<and> map position songs = [1..<Suc (card (set (songs_played data)))]"
proof (intro exI conjI)
  show "fetchSetlistForYear w artistId y apiKey tr = (Inr (sortedSongs data), tr @ [GetSetlists artistId y apiKey])"
    using assms by (rule fetchSetlistForYear_ok)
  show "\<forall>n. map_get (songFrequency data) n =
          (if n \<in> set (songs_played data) then Some (count_list (songs_played data) n) else None)"
    by (simp add: map_get_def songFrequency_flat map_of_counted)
  show "set (map name (sortedSongs data)) = set (songs_played data)"
    by (rule set_names_sortedSongs)
  show "distinct (map name (sortedSongs data))"
    by (rule distinct_names_sortedSongs)
  show "sorted_wrt (ranks_before (songs_played data)) (map name (sortedSongs data))"
    by (rule ranking_sortedSongs)
  show "map position (sortedSongs data) = [1..<Suc (card (set (songs_played data)))]"
    by (simp only: positions_sortedSongs length_songFrequency)
qed simp

lemma example_ranked:
  "sortedSongs example_setlists =
     [\<lparr>name = lit ''A'', position = 1\<rparr>, \<lparr>name = lit ''B'', position = 2\<rparr>, \<lparr>name = lit ''C'', position = 3\<rparr>]"
  by (simp add: sortedSongs_def songFrequency_def example_setlists_def performance_def count_setlist_def
      count_set_def count_song_def get_or_zero_def map_get_def by_frequency_def lit_def enumerate_eq_zip upt_rec)

theorem fetchSetlistForYear_ranks_by_frequency_witness:
  "setlistfm (example_world no_track) [] (lit ''a1'') 2023 (lit ''k'') = Inr example_setlists \<and>
   (\<exists>songs. fetchSetlistForYear (example_world no_track) (lit ''a1'') 2023 (lit ''k'') []
               = (Inr songs, [] @ [GetSetlists (lit ''a1'') 2023 (lit ''k'')])
           \<and> songs = sortedSongs example_setlists
           \<and> (\<forall>n. map_get (songFrequency example_setlists) n =
                 (if n \<in> set (songs_played example_setlists)
                  then Some (count_list (songs_played example_setlists) n) else None))
           \<and> set (map name songs) = set (songs_played example_setlists)
           \<and> distinct (map name songs)
           \<and> sorted_wrt (ranks_before (songs_played example_setlists)) (map name songs)
           \<and> map position songs = [1..<Suc (card (set (songs_played example_setlists)))])
   \<and> sortedSongs example_setlists =
       [\<lparr>name = lit ''A'', position = 1\<rparr>, \<lparr>name = lit ''B'', position = 2\<rparr>, \<lparr>name = lit ''C'', position = 3\<rparr>]"
proof -
  have h: "setlistfm (example_world no_track) [] (lit ''a1'') 2023 (lit ''k'') = Inr example_setlists"
    by (simp add: example_world_def)
  show ?thesis
    using h fetchSetlistForYear_ranks_by_frequency[OF h] example_ranked by blast
qed

section \<open>The year fallback\<close>

lemma fetchSetlistForYear_trace:
  "snd (fetchSetlistForYear w a y k tr) = tr @ [GetSetlists a y k]"
  by (simp add: fetchSetlistForYear_def try_catch_def bind_def request_def return_def throw_def
      split: sum.splits)

lemma number_minus_safe: "safe_integer y \<Longrightarrow> number_minus y 1 = y - 1"
  by (auto simp: safe_integer_def number_minus_def to_number_def nearest_double_def)

text \<open>What \<open>getAverageSetlist\<close> does after a first fetch without songs, for any year.\<close>

lemma getAverageSetlist_retry:
  assumes Y: "Y = (case params_year params of None \<Rightarrow> getFullYear w tr | Some y \<Rightarrow> y)"
    and a: "a = params_artistId params"
    and first: "fetchSetlistForYear w a Y apiKey tr = (Inr [], tr1)"
  shows "snd (getAverageSetlist w params apiKey tr)
           = tr @ [GetSetlists a Y apiKey, GetSetlists a (number_minus Y 1) apiKey]"
    and "fetchSetlistForYear w a (number_minus Y 1) apiKey tr1 = (Inr retrySongs, tr2) \<Longrightarrow>
         fst (getAverageSetlist w params apiKey tr)
           = (if retrySongs = [] then Inl (no_data_error a Y (number_minus Y 1)) else Inr retrySongs)"
proof -
  have tr1: "tr1 = tr @ [GetSetlists a Y apiKey]"
    using fetchSetlistForYear_trace[of w a Y apiKey tr] first by simp
  obtain r tr2' where retry: "fetchSetlistForYear w a (number_minus Y 1) apiKey tr1 = (r, tr2')"
    by (cases "fetchSetlistForYear w a (number_minus Y 1) apiKey tr1")
  have tr2: "tr2' = tr @ [GetSetlists a Y apiKey, GetSetlists a (number_minus Y 1) apiKey]"
    using fetchSetlistForYear_trace[of w a "number_minus Y 1" apiKey tr1] retry tr1 by simp
  show "snd (getAverageSetlist w params apiKey tr)
           = tr @ [GetSetlists a Y apiKey, GetSetlists a (number_minus Y 1) apiKey]"
    using first retry tr2 Y[symmetric] a[symmetric]
    by (cases r)
       (simp_all add: getAverageSetlist_def Let_def try_catch_def bind_def return_def throw_def)
  show "fst (getAverageSetlist w params apiKey tr)
           = (if retrySongs = [] then Inl (no_data_error a Y (number_minus Y 1)) else Inr retrySongs)"
    if "fetchSetlistForYear w a (number_minus Y 1) apiKey tr1 = (Inr retrySongs, tr2)"
    using first that Y[symmetric] a[symmetric]
    by (simp add: getAverageSetlist_def Let_def try_catch_def bind_def return_def throw_def
        no_data_error_def)
qed

text \<open>
  C2, as amended. For a target year that is a safe integer: when the fetch for the target
  year succeeds without songs, \<open>getAverageSetlist\<close> issues exactly one further fetch, for
  the year before, and returns its songs if there are any; when that fetch has no songs
  either, it fails with the error that names the artist and both years. For any target
  year: when the first fetch has songs, they are returned and nothing else is fetched.
\<close>

theorem getAverageSetlist_one_step_back:
  assumes Y: "Y = (case params_year params of None \<Rightarrow> getFullYear w tr | Some y \<Rightarrow> y)"
    and a: "a = params_artistId params"
    and first: "fetchSetlistForYear w a Y apiKey tr = (Inr songs, tr1)"
  shows "(songs \<noteq> [] \<longrightarrow>
            getAverageSetlist w params apiKey tr = (Inr songs, tr @ [GetSetlists a Y apiKey]))
       \<and> (songs = [] \<and> safe_integer Y \<longrightarrow>
            snd (getAverageSetlist w params apiKey tr)
              = tr @ [GetSetlists a Y apiKey, GetSetlists a (Y - 1) apiKey]
          \<and> (\<forall>retrySongs tr2. fetchSetlistForYear w a (Y - 1) apiKey tr1 = (Inr retrySongs, tr2) \<longrightarrow>
                (retrySongs \<noteq> [] \<longrightarrow> fst (getAverageSetlist w params apiKey tr) = Inr retrySongs)
              \<and> (retrySongs = [] \<longrightarrow>
                   fst (getAverageSetlist w params apiKey tr) = Inl (no_data_error a Y (Y - 1)))))"
proof (intro conjI impI)
  assume "songs \<noteq> []"
  moreover have "tr1 = tr @ [GetSetlists a Y apiKey]"
    using fetchSetlistForYear_trace[of w a Y apiKey tr] first by simp
  ultimately show "getAverageSetlist w params apiKey tr = (Inr songs, tr @ [GetSetlists a Y apiKey])"
    using first Y[symmetric] a[symmetric]
    by (simp add: getAverageSetlist_def Let_def try_catch_def bind_def return_def)
next
  assume empty: "songs = [] \<and> safe_integer Y"
  then have before: "number_minus Y 1 = Y - 1"
    by (simp add: number_minus_safe)
  note retry = getAverageSetlist_retry[OF Y a first[unfolded conjunct1[OF empty]], unfolded before]
  show "snd (getAverageSetlist w params apiKey tr)
          = tr @ [GetSetlists a Y apiKey, GetSetlists a (Y - 1) apiKey]"
    by (rule retry(1))
  show "\<forall>retrySongs tr2. fetchSetlistForYear w a (Y - 1) apiKey tr1 = (Inr retrySongs, tr2) \<longrightarrow>
          (retrySongs \<noteq> [] \<longrightarrow> fst (getAverageSetlist w params apiKey tr) = Inr retrySongs)
        \<and> (retrySongs = [] \<longrightarrow>
             fst (getAverageSetlist w params apiKey tr) = Inl (no_data_error a Y (Y - 1)))"
    using retry(2) by simp
qed

lemma example_unranked: "sortedSongs \<lparr>setlist = Some [performance []]\<rparr> = []"
  by (simp add: sortedSongs_def songFrequency_def performance_def count_setlist_def count_set_def)

lemma example_fetch_2023:
  "fetchSetlistForYear (example_world r) a 2023 k tr = (Inr (sortedSongs example_setlists), tr @ [GetSetlists a 2023 k])"
  by (rule fetchSetlistForYear_ok) (simp add: example_world_def)

lemma example_fetch_other:
  "y \<noteq> 2023 \<Longrightarrow> fetchSetlistForYear (example_world r) a y k tr = (Inr [], tr @ [GetSetlists a y k])"
  using fetchSetlistForYear_ok[of "example_world r" tr a y k "\<lparr>setlist = Some [performance []]\<rparr>"]
  by (simp add: example_world_def example_unranked)

theorem getAverageSetlist_one_step_back_witness:
  "safe_integer 2024 \<and> safe_integer 2000
   \<and> fetchSetlistForYear (example_world no_track) (lit ''a1'') 2024 (lit ''k'') []
     = (Inr [], [GetSetlists (lit ''a1'') 2024 (lit ''k'')])
   \<and> getAverageSetlist (example_world no_track) \<lparr>params_artistId = lit ''a1'', params_year = None\<rparr> (lit ''k'') []
     = (Inr [\<lparr>name = lit ''A'', position = 1\<rparr>, \<lparr>name = lit ''B'', position = 2\<rparr>, \<lparr>name = lit ''C'', position = 3\<rparr>],
        [GetSetlists (lit ''a1'') 2024 (lit ''k''), GetSetlists (lit ''a1'') 2023 (lit ''k'')])
   \<and> fetchSetlistForYear (example_world no_track) (lit ''a1'') 2000 (lit ''k'') []
     = (Inr [], [GetSetlists (lit ''a1'') 2000 (lit ''k'')])
   \<and> getAverageSetlist (example_world no_track) \<lparr>params_artistId = lit ''a1'', params_year = Some 2000\<rparr> (lit ''k'') []
     = (Inl (no_data_error (lit ''a1'') 2000 1999),
        [GetSetlists (lit ''a1'') 2000 (lit ''k''), GetSetlists (lit ''a1'') 1999 (lit ''k'')])
   \<and> getAverageSetlist (example_world no_track) \<lparr>params_artistId = lit ''a1'', params_year = Some 2023\<rparr> (lit ''k'') []
     = (Inr [\<lparr>name = lit ''A'', position = 1\<rparr>, \<lparr>name = lit ''B'', position = 2\<rparr>, \<lparr>name = lit ''C'', position = 3\<rparr>],
        [GetSetlists (lit ''a1'') 2023 (lit ''k'')])"
proof -
  let ?w = "example_world no_track" and ?a = "lit ''a1''" and ?k = "lit ''k''"
  have clock: "2024 = (case params_year \<lparr>params_artistId = ?a, params_year = None\<rparr>
                       of None \<Rightarrow> getFullYear ?w [] | Some y \<Rightarrow> y)"
    by (simp add: example_world_def)
  have f2024: "fetchSetlistForYear ?w ?a 2024 ?k [] = (Inr [], [GetSetlists ?a 2024 ?k])"
    by (simp add: example_fetch_other)
  have f2000: "fetchSetlistForYear ?w ?a 2000 ?k [] = (Inr [], [GetSetlists ?a 2000 ?k])"
    by (simp add: example_fetch_other)
  have f2023: "fetchSetlistForYear ?w ?a 2023 ?k [] = (Inr (sortedSongs example_setlists), [GetSetlists ?a 2023 ?k])"
    by (simp add: example_fetch_2023)
  have "getAverageSetlist ?w \<lparr>params_artistId = ?a, params_year = None\<rparr> ?k []
          = (Inr (sortedSongs example_setlists), [GetSetlists ?a 2024 ?k, GetSetlists ?a 2023 ?k])"
    using getAverageSetlist_one_step_back[OF clock _ f2024]
    by (simp add: example_fetch_2023 example_ranked prod_eq_iff safe_integer_def)
  moreover have "getAverageSetlist ?w \<lparr>params_artistId = ?a, params_year = Some 2000\<rparr> ?k []
          = (Inl (no_data_error ?a 2000 1999), [GetSetlists ?a 2000 ?k, GetSetlists ?a 1999 ?k])"
    using getAverageSetlist_one_step_back[OF _ _ f2000, of "\<lparr>params_artistId = ?a, params_year = Some 2000\<rparr>"]
    by (simp add: example_fetch_other prod_eq_iff safe_integer_def)
  moreover have "getAverageSetlist ?w \<lparr>params_artistId = ?a, params_year = Some 2023\<rparr> ?k []
          = (Inr (sortedSongs example_setlists), [GetSetlists ?a 2023 ?k])"
    using getAverageSetlist_one_step_back[OF _ _ f2023, of "\<lparr>params_artistId = ?a, params_year = Some 2023\<rparr>"]
    by (simp add: example_ranked)
  ultimately show ?thesis
    using f2024 f2000 by (simp add: example_ranked safe_integer_def)
qed

text \<open>
  C2 as stated, for every target year, fails beyond the safe integers: for the
  target year \<open>2^53 + 2\<close> the number \<open>targetYear - 1\<close> is \<open>2^53\<close>, so the further fetch
  and the error are for the year two before.
\<close>

theorem getAverageSetlist_one_step_back_counterexample:
  "fetchSetlistForYear (example_world no_track) (lit ''a1'') 9007199254740994 (lit ''k'') []
     = (Inr [], [GetSetlists (lit ''a1'') 9007199254740994 (lit ''k'')])
   \<and> getAverageSetlist (example_world no_track)
         \<lparr>params_artistId = lit ''a1'', params_year = Some 9007199254740994\<rparr> (lit ''k'') []
     = (Inl (no_data_error (lit ''a1'') 9007199254740994 (9007199254740994 - 2)),
        [GetSetlists (lit ''a1'') 9007199254740994 (lit ''k''),
         GetSetlists (lit ''a1'') (9007199254740994 - 2) (lit ''k'')])
   \<and> GetSetlists (lit ''a1'') (9007199254740994 - 1) (lit ''k'')
        \<notin> set (snd (getAverageSetlist (example_world no_track)
                  \<lparr>params_artistId = lit ''a1'', params_year = Some 9007199254740994\<rparr> (lit ''k'') []))"
proof -
  let ?w = "example_world no_track" and ?a = "lit ''a1''" and ?k = "lit ''k''"
  let ?p = "\<lparr>params_artistId = ?a, params_year = Some 9007199254740994\<rparr>"
  have "bit_length 9007199254740993 = 54"
    by (simp add: bit_length.simps)
  then have before: "number_minus 9007199254740994 1 = 9007199254740992"
    by (simp add: number_minus_def to_number_def nearest_double_def)
  have first: "fetchSetlistForYear ?w ?a 9007199254740994 ?k [] = (Inr [], [GetSetlists ?a 9007199254740994 ?k])"
    by (simp add: example_fetch_other)
  have second: "fetchSetlistForYear ?w ?a 9007199254740992 ?k [GetSetlists ?a 9007199254740994 ?k]
                  = (Inr [], [GetSetlists ?a 9007199254740994 ?k, GetSetlists ?a 9007199254740992 ?k])"
    by (simp add: example_fetch_other)
  have "snd (getAverageSetlist ?w ?p ?k [])
          = [GetSetlists ?a 9007199254740994 ?k, GetSetlists ?a 9007199254740992 ?k]"
    using getAverageSetlist_retry(1)[OF _ _ first, of ?p] by (simp add: before)
  moreover have "fst (getAverageSetlist ?w ?p ?k [])
          = Inl (no_data_error ?a 9007199254740994 9007199254740992)"
    using getAverageSetlist_retry(2)[OF _ _ first, of ?p "[]"] second by (simp add: before)
  ultimately show ?thesis
    using first by (simp add: prod_eq_iff)
qed

section \<open>The track matcher\<close>

lemma searchSpotifyTrack_cases:
  "searchSpotifyTrack w title an tok tr =
     ((case spotify_search w tr (search_query title an) 1 tok of
         Inr response \<Rightarrow>
           Inr (if items response \<noteq> []
                then \<lparr>songName = title, trackUri = Some (uri (items response ! 0)), found = True\<rparr>
                else unresolved title)
       | Inl e \<Rightarrow> if isAxiosError e \<and> response_status e = Some 401 then Inl token_rejected
                  else Inr (unresolved title)),
      tr @ [GetSearch (search_query title an) 1 tok])"
  by (simp add: searchSpotifyTrack_def try_catch_def bind_def request_def return_def throw_def Let_def
      unresolved_def token_rejected_def statusCode_def split: sum.splits)

lemma searchSpotifyTrack_throws:
  "searchSpotifyTrack w title an tok tr = (Inl e, tr') \<Longrightarrow>
   e = token_rejected \<and> tr' = tr @ [GetSearch (search_query title an) 1 tok]
   \<and> unauthorized (spotify_search w tr (search_query title an) 1 tok)"
  by (auto simp: searchSpotifyTrack_cases unauthorized_def split: sum.splits if_splits)

lemma searchSpotifyTrack_returns:
  "searchSpotifyTrack w title an tok tr = (Inr r, tr') \<Longrightarrow>
   songName r = title \<and> (found r \<longleftrightarrow> trackUri r \<noteq> None)
   \<and> tr' = tr @ [GetSearch (search_query title an) 1 tok]
   \<and> \<not> unauthorized (spotify_search w tr (search_query title an) 1 tok)"
  by (auto simp: searchSpotifyTrack_cases unauthorized_def unresolved_def split: sum.splits if_splits)

lemma lookup_unauthorized_append:
  "k < length tr \<Longrightarrow> lookup_unauthorized w (tr @ ext) k = lookup_unauthorized w tr k"
  by (cases "tr ! k") (simp_all add: lookup_unauthorized_def nth_append)

lemma lookup_unauthorized_last:
  "lookup_unauthorized w (tr @ [GetSearch q n tok]) (length tr) = unauthorized (spotify_search w tr q n tok)"
  by (simp add: lookup_unauthorized_def)

lemma lookup_unauthorized_is_lookup:
  "lookup_unauthorized w tr k \<Longrightarrow> is_lookup (tr ! k)"
  by (cases "tr ! k") (simp_all add: lookup_unauthorized_def)


lemma matchAllTracks_loop_returns:
  "matchAllTracks_loop w songs an tok results tr = (Inr rs, tr') \<Longrightarrow>
   tr' = tr @ map (lookup an tok) songs
   \<and> (\<exists>new. rs = results @ new \<and> map songName new = map name songs
              \<and> (\<forall>r\<in>set new. found r \<longleftrightarrow> trackUri r \<noteq> None))
   \<and> (\<forall>j<length songs. \<not> lookup_unauthorized w tr' (length tr + j))"
proof (induction songs arbitrary: results tr)
  case Nil
  then show ?case by simp
next
  case (Cons s songs)
  obtain r1 tr1 where first: "searchSpotifyTrack w (name s) an tok tr = (r1, tr1)"
    by (cases "searchSpotifyTrack w (name s) an tok tr")
  with Cons.prems obtain r where r1: "r1 = Inr r"
    by (cases r1) simp_all
  note found = searchSpotifyTrack_returns[OF first[unfolded r1]]
  have tr1: "tr1 = tr @ [lookup an tok s]"
    using found by (simp add: lookup_def)
  have rest: "matchAllTracks_loop w songs an tok (results @ [r]) tr1 = (Inr rs, tr')"
    using Cons.prems first r1 by simp
  note IH = Cons.IH[OF rest]
  have trace: "tr' = tr @ map (lookup an tok) (s # songs)"
    using IH tr1 by simp
  obtain new where new: "rs = (results @ [r]) @ new" "map songName new = map name songs"
    "\<forall>r\<in>set new. found r \<longleftrightarrow> trackUri r \<noteq> None"
    using IH by blast
  have results: "\<exists>new. rs = results @ new \<and> map songName new = map name (s # songs)
              \<and> (\<forall>r\<in>set new. found r \<longleftrightarrow> trackUri r \<noteq> None)"
    using new found by (intro exI[of _ "r # new"]) simp
  have "\<not> lookup_unauthorized w tr' (length tr + j)" if "j < length (s # songs)" for j
  proof (cases j)
    case 0
    have "lookup_unauthorized w tr' (length tr) = lookup_unauthorized w tr1 (length tr)"
      using IH tr1 lookup_unauthorized_append[of "length tr" tr1 w "map (lookup an tok) songs"] by simp
    also have "\<dots> = unauthorized (spotify_search w tr (search_query (name s) an) 1 tok)"
      by (simp add: tr1 lookup_def lookup_unauthorized_last)
    finally show ?thesis using found 0 by simp
  next
    case (Suc i)
    have "length tr1 = Suc (length tr)"
      using tr1 by simp
    moreover have "i < length songs"
      using that Suc by simp
    then have "\<not> lookup_unauthorized w tr' (length tr1 + i)"
      using IH by blast
    ultimately show ?thesis using Suc by simp
  qed
  with trace results show ?case by blast
qed

lemma matchAllTracks_loop_throws:
  "matchAllTracks_loop w songs an tok results tr = (Inl e, tr') \<Longrightarrow>
   e = token_rejected
   \<and> (\<exists>i<length songs. tr' = tr @ map (lookup an tok) (take (Suc i) songs)
          \<and> lookup_unauthorized w tr' (length tr + i)
          \<and> (\<forall>j<i. \<not> lookup_unauthorized w tr' (length tr + j)))"
proof (induction songs arbitrary: results tr)
  case Nil
  then show ?case by simp
next
  case (Cons s songs)
  obtain r1 tr1 where first: "searchSpotifyTrack w (name s) an tok tr = (r1, tr1)"
    by (cases "searchSpotifyTrack w (name s) an tok tr")
  show ?case
  proof (cases r1)
    case (Inl e1)
    note thrown = searchSpotifyTrack_throws[OF first[unfolded Inl]]
    have res: "e = e1" "tr' = tr1"
      using Cons.prems first Inl by simp_all
    have "tr' = tr @ map (lookup an tok) (take (Suc 0) (s # songs))"
      using thrown res by (simp add: lookup_def)
    moreover have "lookup_unauthorized w tr' (length tr + 0)"
      using thrown res by (simp add: lookup_unauthorized_last)
    ultimately have "\<exists>i<length (s # songs). tr' = tr @ map (lookup an tok) (take (Suc i) (s # songs))
          \<and> lookup_unauthorized w tr' (length tr + i)
          \<and> (\<forall>j<i. \<not> lookup_unauthorized w tr' (length tr + j))"
      by (intro exI[of _ 0]) simp
    with thrown res show ?thesis by simp
  next
    case (Inr r)
    note found = searchSpotifyTrack_returns[OF first[unfolded Inr]]
    have tr1: "tr1 = tr @ [lookup an tok s]"
      using found by (simp add: lookup_def)
    have rest: "matchAllTracks_loop w songs an tok (results @ [r]) tr1 = (Inl e, tr')"
      using Cons.prems first Inr by simp
    note IH = Cons.IH[OF rest]
    then obtain i where i: "i < length songs" "tr' = tr1 @ map (lookup an tok) (take (Suc i) songs)"
      "lookup_unauthorized w tr' (length tr1 + i)"
      "\<forall>j<i. \<not> lookup_unauthorized w tr' (length tr1 + j)"
      by blast
    have first_ok: "\<not> lookup_unauthorized w tr' (length tr)"
    proof -
      have "lookup_unauthorized w tr' (length tr) = lookup_unauthorized w tr1 (length tr)"
        using i(2) tr1 lookup_unauthorized_append[of "length tr" tr1 w "map (lookup an tok) (take (Suc i) songs)"]
        by simp
      also have "\<dots> = unauthorized (spotify_search w tr (search_query (name s) an) 1 tok)"
        by (simp add: tr1 lookup_def lookup_unauthorized_last)
      finally show ?thesis using found by simp
    qed
    have "\<not> lookup_unauthorized w tr' (length tr + j)" if "j < Suc i" for j
    proof (cases j)
      case 0
      with first_ok show ?thesis by simp
    next
      case (Suc j')
      with that i(4) tr1 show ?thesis by simp
    qed
    then have "Suc i < length (s # songs) \<and> tr' = tr @ map (lookup an tok) (take (Suc (Suc i)) (s # songs))
          \<and> lookup_unauthorized w tr' (length tr + Suc i)
          \<and> (\<forall>j<Suc i. \<not> lookup_unauthorized w tr' (length tr + j))"
      using i tr1 by simp
    then have "\<exists>i<length (s # songs). tr' = tr @ map (lookup an tok) (take (Suc i) (s # songs))
          \<and> lookup_unauthorized w tr' (length tr + i)
          \<and> (\<forall>j<i. \<not> lookup_unauthorized w tr' (length tr + j))"
      by (intro exI[of _ "Suc i"]) blast
    with IH show ?thesis by simp
  qed
qed


text \<open>
  C3. When no lookup of the run is answered with an authentication failure,
  \<open>matchAllTracks\<close> returns one result for every input song, in the order of the input,
  and a result that is not found has no track URI.
\<close>

theorem matchAllTracks_one_result_per_song:
  assumes run: "matchAllTracks w songs artistName accessToken tr = (res, tr')"
    and no_auth_failure: "\<forall>k. length tr \<le> k \<and> k < length tr' \<longrightarrow> \<not> lookup_unauthorized w tr' k"
  shows "\<exists>results. res = Inr results \<and> length results = length songs
           \<and> map songName results = map name songs
           \<and> (\<forall>r\<in>set results. \<not> found r \<longrightarrow> trackUri r = None)"
proof (cases res)
  case (Inl e)
  then have "matchAllTracks_loop w songs artistName accessToken [] tr = (Inl e, tr')"
    using run by (simp add: matchAllTracks_def)
  from matchAllTracks_loop_throws[OF this]
  obtain i where "tr' = tr @ map (lookup artistName accessToken) (take (Suc i) songs)"
    "i < length songs" "lookup_unauthorized w tr' (length tr + i)"
    by blast
  moreover from this have "length tr + i < length tr'"
    by simp
  ultimately show ?thesis
    using no_auth_failure by (meson le_add1)
next
  case (Inr rs)
  then have "matchAllTracks_loop w songs artistName accessToken [] tr = (Inr rs, tr')"
    using run by (simp add: matchAllTracks_def)
  from matchAllTracks_loop_returns[OF this]
  have "map songName rs = map name songs" "\<forall>r\<in>set rs. found r \<longleftrightarrow> trackUri r \<noteq> None"
    by auto
  moreover from this(1) have "length rs = length songs"
    by (rule map_eq_imp_length_eq)
  ultimately show ?thesis
    using Inr by auto
qed

lemma example_search_A:
  "searchSpotifyTrack (example_world r) (lit ''A'') (lit ''M'') tok tr
     = (Inr (example_track ''A''), tr @ [GetSearch (search_query (lit ''A'') (lit ''M'')) 1 tok])"
  by (simp add: searchSpotifyTrack_cases example_world_def example_catalog_def example_track_def
      search_query_def lit_def)

lemma example_search_C:
  "searchSpotifyTrack (example_world r) (lit ''C'') (lit ''M'') tok tr
     = (Inr (example_track ''C''), tr @ [GetSearch (search_query (lit ''C'') (lit ''M'')) 1 tok])"
  by (simp add: searchSpotifyTrack_cases example_world_def example_catalog_def example_track_def
      search_query_def lit_def)

lemma example_search_B:
  "searchSpotifyTrack (example_world r) (lit ''B'') (lit ''M'') tok tr
     = ((case r of
         Inr response \<Rightarrow>
           Inr (if items response \<noteq> []
                then \<lparr>songName = lit ''B'', trackUri = Some (uri (items response ! 0)), found = True\<rparr>
                else unresolved (lit ''B''))
       | Inl e \<Rightarrow> if isAxiosError e \<and> response_status e = Some 401 then Inl token_rejected
                  else Inr (unresolved (lit ''B''))),
        tr @ [GetSearch (search_query (lit ''B'') (lit ''M'')) 1 tok])"
  by (simp add: searchSpotifyTrack_cases example_world_def example_catalog_def)

lemma example_match_no_track:
  "matchAllTracks (example_world no_track) example_songs (lit ''M'') tok tr
     = (Inr [example_track ''A'', unresolved (lit ''B''), example_track ''C''],
        tr @ map (lookup (lit ''M'') tok) example_songs)"
  by (simp add: matchAllTracks_def example_songs_def example_search_A example_search_B example_search_C
      no_track_def lookup_def)

lemma example_lookup_B_at:
  "lookup_unauthorized (example_world r) (tr @ GetSearch (search_query (lit ''B'') (lit ''M'')) n tok # rest) (length tr)
     = unauthorized r"
  by (simp add: lookup_unauthorized_def example_world_def example_catalog_def)

lemma example_lookup_other_at:
  "q \<noteq> search_query (lit ''B'') (lit ''M'') \<Longrightarrow>
   \<not> lookup_unauthorized (example_world r) (tr @ GetSearch q n tok # rest) (length tr)"
  by (simp add: lookup_unauthorized_def example_world_def example_catalog_def unauthorized_def)

lemma example_queries:
  "search_query (lit ''A'') (lit ''M'') \<noteq> search_query (lit ''B'') (lit ''M'')"
  "search_query (lit ''C'') (lit ''M'') \<noteq> search_query (lit ''B'') (lit ''M'')"
  by (simp_all add: search_query_def lit_def)

theorem matchAllTracks_one_result_per_song_witness:
  "matchAllTracks (example_world no_track) example_songs (lit ''M'') (lit ''t'') []
     = (Inr [example_track ''A'', unresolved (lit ''B''), example_track ''C''], example_lookups)
   \<and> \<not> lookup_unauthorized (example_world no_track) example_lookups 0
   \<and> \<not> lookup_unauthorized (example_world no_track) example_lookups 1
   \<and> \<not> lookup_unauthorized (example_world no_track) example_lookups 2
   \<and> length [example_track ''A'', unresolved (lit ''B''), example_track ''C''] = length example_songs
   \<and> map songName [example_track ''A'', unresolved (lit ''B''), example_track ''C''] = map name example_songs
   \<and> \<not> found (unresolved (lit ''B'')) \<and> trackUri (unresolved (lit ''B'')) = None"
proof -
  let ?w = "example_world no_track"
  let ?results = "[example_track ''A'', unresolved (lit ''B''), example_track ''C'']"
  have run: "matchAllTracks ?w example_songs (lit ''M'') (lit ''t'') [] = (Inr ?results, example_lookups)"
    using example_match_no_track[of "lit ''t''" "[]"] by (simp add: example_lookups_def)
  have each: "\<not> lookup_unauthorized ?w example_lookups k" if "k < 3" for k
    using that example_lookup_other_at[OF example_queries(1), of no_track "[]"]
      example_lookup_B_at[of no_track "[lookup (lit ''M'') (lit ''t'') (example_songs ! 0)]"]
      example_lookup_other_at[OF example_queries(2), of no_track "take 2 example_lookups"]
    by (auto simp: less_Suc_eq numeral_3_eq_3 example_lookups_def example_songs_def lookup_def no_track_def
        unauthorized_def)
  then have ok: "\<forall>k. length ([]::call list) \<le> k \<and> k < length example_lookups \<longrightarrow>
                   \<not> lookup_unauthorized ?w example_lookups k"
    by (simp add: example_lookups_def example_songs_def)
  obtain results where "(Inr ?results :: thrown + TrackSearchResult list) = Inr results"
    "length results = length example_songs" "map songName results = map name example_songs"
    "\<forall>r\<in>set results. \<not> found r \<longrightarrow> trackUri r = None"
    using matchAllTracks_one_result_per_song[OF run ok] by blast
  then have "length ?results = length example_songs" "map songName ?results = map name example_songs"
    "\<not> found (unresolved (lit ''B'')) \<longrightarrow> trackUri (unresolved (lit ''B'')) = None"
    by auto
  moreover have "\<not> found (unresolved (lit ''B''))"
    by (simp add: unresolved_def)
  ultimately show ?thesis
    using run each[of 0] each[of 1] each[of 2] by simp
qed

text \<open>
  C7. When the search request for a song fails for any reason other than an authentication
  error, \<open>searchSpotifyTrack\<close> does not throw but returns the result without a track
  (\<open>found\<close> false, no URI), and the loop of \<open>matchAllTracks\<close> goes on with the next song.
\<close>

theorem searchSpotifyTrack_tolerates_lookup_failure:
  assumes failure: "spotify_search w tr (search_query title artistName) 1 accessToken = Inl e"
    and other: "\<not> (isAxiosError e \<and> response_status e = Some 401)"
  shows "searchSpotifyTrack w title artistName accessToken tr
           = (Inr \<lparr>songName = title, trackUri = None, found = False\<rparr>,
              tr @ [GetSearch (search_query title artistName) 1 accessToken])
       \<and> (\<forall>s songs results. name s = title \<longrightarrow>
             matchAllTracks_loop w (s # songs) artistName accessToken results tr
               = matchAllTracks_loop w songs artistName accessToken
                   (results @ [\<lparr>songName = title, trackUri = None, found = False\<rparr>])
                   (tr @ [GetSearch (search_query title artistName) 1 accessToken]))"
  using assms by (simp add: searchSpotifyTrack_cases unresolved_def)

section \<open>The playlist creator\<close>

lemma spotify_catch_eq: "spotify_catch e tr = (Inl (spotify_failure e), tr)"
  by (simp add: spotify_catch_def spotify_failure_def throw_def token_rejected_def statusCode_def)

lemma getUserId_cases:
  "getUserId w tok tr =
     ((case spotify_me w tr tok of Inr u \<Rightarrow> Inr (user_id u) | Inl e \<Rightarrow> Inl (spotify_failure e)),
      tr @ [GetMe tok])"
  by (simp add: getUserId_def try_catch_def bind_def request_def return_def spotify_catch_eq
      split: sum.splits)

lemma createSpotifyPlaylist_cases:
  "createSpotifyPlaylist w uid an y tok tr =
     ((case spotify_create w tr uid (playlist_request an y) tok of
         Inr pl \<Rightarrow> Inr (playlist_id pl)
       | Inl e \<Rightarrow> Inl (spotify_failure e)),
      tr @ [PostPlaylist uid (playlist_request an y) tok])"
proof -
  have "an @ lit '' '' @ [0x2014] @ lit '' Average Setlist '' @ number_toString y = playlist_title an y"
    by (simp add: playlist_title_def lit_def)
  then show ?thesis
    by (simp add: createSpotifyPlaylist_def playlist_request_def Let_def try_catch_def bind_def
        request_def return_def spotify_catch_eq split: sum.splits)
qed

lemma addTracksToPlaylist_cases:
  "addTracksToPlaylist w pid uris tok tr =
     (if uris = [] then (Inr (), tr)
      else ((case spotify_add w tr pid uris tok of Inr u \<Rightarrow> Inr () | Inl e \<Rightarrow> Inl (spotify_failure e)),
            tr @ [PostTracks pid uris tok]))"
  by (simp add: addTracksToPlaylist_def try_catch_def request_def return_def spotify_catch_eq
      split: sum.splits)

text \<open>The runs of \<open>createPlaylist\<close>, by the step that fails.\<close>

lemma createPlaylist_cases:
  "createPlaylist w p tr =
     (let tok = p_accessToken p; body = playlist_request (p_artistName p) (p_year p);
          uris = p_trackUris p; tr1 = tr @ [GetMe tok]
      in case spotify_me w tr tok of
           Inl e \<Rightarrow> (Inl (playlist_failure (spotify_failure e)), tr1)
         | Inr u \<Rightarrow>
             (let tr2 = tr1 @ [PostPlaylist (user_id u) body tok]
              in case spotify_create w tr1 (user_id u) body tok of
                   Inl e \<Rightarrow> (Inl (playlist_failure (spotify_failure e)), tr2)
                 | Inr pl \<Rightarrow>
                     (let created = \<lparr>playlistId = playlist_id pl, tracksAdded = length uris, year = p_year p\<rparr>
                      in if uris = [] then (Inr created, tr2)
                         else (case spotify_add w tr2 (playlist_id pl) uris tok of
                                 Inl e \<Rightarrow> Inl (playlist_failure (spotify_failure e))
                               | Inr x \<Rightarrow> Inr created,
                               tr2 @ [PostTracks (playlist_id pl) uris tok]))))"
  by (simp add: createPlaylist_def Let_def try_catch_def bind_def return_def throw_def
      getUserId_cases createSpotifyPlaylist_cases addTracksToPlaylist_cases playlist_failure_def
      split: sum.splits)


text \<open>
  C8. With an empty list of track URIs \<open>createPlaylist\<close> issues no population request;
  when the identity and creation requests succeed, the private playlist is still created
  and the result reports \<open>tracksAdded = 0\<close>. With a non-empty list, all URIs go into one
  population request, in the order of the input.
\<close>

theorem createPlaylist_population:
  fixes w params tr
  defines "tok \<equiv> p_accessToken params"
    and "body \<equiv> playlist_request (p_artistName params) (p_year params)"
  shows "(p_trackUris params = [] \<longrightarrow>
            (\<forall>pid uris t. PostTracks pid uris t \<notin> set (drop (length tr) (snd (createPlaylist w params tr)))))
       \<and> (\<forall>user pl. spotify_me w tr tok = Inr user
              \<and> spotify_create w (tr @ [GetMe tok]) (user_id user) body tok = Inr pl \<longrightarrow>
            (p_trackUris params = [] \<longrightarrow>
               createPlaylist w params tr
                 = (Inr \<lparr>playlistId = playlist_id pl, tracksAdded = 0, year = p_year params\<rparr>,
                    tr @ [GetMe tok, PostPlaylist (user_id user) body tok])
               \<and> body_public body = False)
          \<and> (p_trackUris params \<noteq> [] \<longrightarrow>
               snd (createPlaylist w params tr)
                 = tr @ [GetMe tok, PostPlaylist (user_id user) body tok,
                         PostTracks (playlist_id pl) (p_trackUris params) tok]))"
  unfolding tok_def body_def
  by (auto simp: createPlaylist_cases Let_def playlist_request_def split: sum.splits)

section \<open>The orchestrator\<close>

lemma blank_iff: "falsy v \<or> trim (string_of v) = [] \<longleftrightarrow> blank v"
  by (cases v) (auto simp: falsy_def string_of_def blank_def trim_def)

lemma handleCreatePlaylist_invalid:
  "blank (req_accessToken req) \<Longrightarrow>
   handleCreatePlaylist w req tr
     = (Inl (ValidationError (lit ''Access token is required'') (Some [(''field'', Str (lit ''accessToken''))])), tr)"
  "\<not> blank (req_accessToken req) \<Longrightarrow> blank (req_artistId req) \<Longrightarrow>
   handleCreatePlaylist w req tr
     = (Inl (ValidationError (lit ''Artist ID is required'') (Some [(''field'', Str (lit ''artistId''))])), tr)"
  "\<not> blank (req_accessToken req) \<Longrightarrow> \<not> blank (req_artistId req) \<Longrightarrow> blank (req_artistName req) \<Longrightarrow>
   handleCreatePlaylist w req tr
     = (Inl (ValidationError (lit ''Artist name is required'') (Some [(''field'', Str (lit ''artistName''))])), tr)"
  by (simp_all add: handleCreatePlaylist_def Let_def blank_iff throw_def)

lemma handleCreatePlaylist_valid:
  assumes "\<not> blank (req_accessToken req)" "\<not> blank (req_artistId req)" "\<not> blank (req_artistName req)"
  shows "handleCreatePlaylist w req tr =
     (if falsy (SETLISTFM_API_KEY w) then
        (Inl (ValidationError (lit ''setlist.fm API key is not configured'')
                (Some [(''field'', Str (lit ''SETLISTFM_API_KEY''))])), tr)
      else
        (case aggregate w req tr of
           (Inl e, tr1) \<Rightarrow> (Inl (unexpected e), tr1)
         | (Inr songs, tr1) \<Rightarrow>
             (case resolve w req songs tr1 of
                (Inl e, tr2) \<Rightarrow> (Inl (unexpected e), tr2)
              | (Inr trackResults, tr2) \<Rightarrow>
                  (case build w req trackResults tr2 of
                     (Inl e, tr3) \<Rightarrow> (Inl (unexpected e), tr3)
                   | (Inr created, tr3) \<Rightarrow> (Inr created, tr3)))))"
  using assms
  by (simp add: handleCreatePlaylist_def Let_def blank_iff throw_def try_catch_def bind_def
      unexpected_def playlist_params_def aggregate_def resolve_def build_def
      split: prod.splits sum.splits)

text \<open>
  C9. When the access token, the artist id or the artist name of a request is missing or
  blank after trimming, \<open>handleCreatePlaylist\<close> fails with a \<open>ValidationError\<close> whose
  details name such a field, and no request has been issued.
\<close>

theorem handleCreatePlaylist_rejects_blank_fields:
  assumes "blank (req_accessToken req) \<or> blank (req_artistId req) \<or> blank (req_artistName req)"
  shows "\<exists>msg field. handleCreatePlaylist w req tr
                       = (Inl (ValidationError msg (Some [(''field'', Str (lit field))])), tr)
           \<and> ((field = ''accessToken'' \<and> blank (req_accessToken req))
              \<or> (field = ''artistId'' \<and> blank (req_artistId req))
              \<or> (field = ''artistName'' \<and> blank (req_artistName req)))"
proof -
  consider "blank (req_accessToken req)"
    | "\<not> blank (req_accessToken req)" "blank (req_artistId req)"
    | "\<not> blank (req_accessToken req)" "\<not> blank (req_artistId req)" "blank (req_artistName req)"
    using assms by blast
  then show ?thesis
  proof cases
    case 1
    from handleCreatePlaylist_invalid(1)[OF this] 1 show ?thesis by blast
  next
    case 2
    from handleCreatePlaylist_invalid(2)[OF this] 2 show ?thesis by blast
  next
    case 3
    from handleCreatePlaylist_invalid(3)[OF this] 3 show ?thesis by blast
  qed
qed

lemma handleCreatePlaylist_run:
  assumes "handleCreatePlaylist w req tr = (res, tr')"
  obtains (rejected) "tr' = tr" "isl res"
  | (aggregation) e where "aggregate w req tr = (Inl e, tr')" "res = Inl (unexpected e)"
  | (resolution) songs tr1 e where "aggregate w req tr = (Inr songs, tr1)"
      "resolve w req songs tr1 = (Inl e, tr')" "res = Inl (unexpected e)"
  | (building) songs tr1 trackResults tr2 e where "aggregate w req tr = (Inr songs, tr1)"
      "resolve w req songs tr1 = (Inr trackResults, tr2)"
      "build w req trackResults tr2 = (Inl e, tr')" "res = Inl (unexpected e)"
  | (created) songs tr1 trackResults tr2 created where "aggregate w req tr = (Inr songs, tr1)"
      "resolve w req songs tr1 = (Inr trackResults, tr2)"
      "build w req trackResults tr2 = (Inr created, tr')" "res = Inr created"
proof (cases "blank (req_accessToken req) \<or> blank (req_artistId req) \<or> blank (req_artistName req)")
  case True
  then have "tr' = tr \<and> isl res"
    using assms handleCreatePlaylist_invalid[of req w tr] by (cases "blank (req_accessToken req)"; cases "blank (req_artistId req)") auto
  then show ?thesis using rejected by blast
next
  case False
  then have run: "handleCreatePlaylist w req tr =
     (if falsy (SETLISTFM_API_KEY w) then
        (Inl (ValidationError (lit ''setlist.fm API key is not configured'')
                (Some [(''field'', Str (lit ''SETLISTFM_API_KEY''))])), tr)
      else
        (case aggregate w req tr of
           (Inl e, tr1) \<Rightarrow> (Inl (unexpected e), tr1)
         | (Inr songs, tr1) \<Rightarrow>
             (case resolve w req songs tr1 of
                (Inl e, tr2) \<Rightarrow> (Inl (unexpected e), tr2)
              | (Inr trackResults, tr2) \<Rightarrow>
                  (case build w req trackResults tr2 of
                     (Inl e, tr3) \<Rightarrow> (Inl (unexpected e), tr3)
                   | (Inr created, tr3) \<Rightarrow> (Inr created, tr3)))))"
    by (simp add: handleCreatePlaylist_valid)
  show ?thesis
  proof (cases "falsy (SETLISTFM_API_KEY w)")
    case True
    with run assms have "tr' = tr \<and> isl res" by auto
    then show ?thesis using rejected by blast
  next
    case no_key: False
    obtain r1 tr1 where a: "aggregate w req tr = (r1, tr1)"
      by (cases "aggregate w req tr")
    show ?thesis
    proof (cases r1)
      case (Inl e)
      with run assms no_key a show ?thesis using aggregation by simp
    next
      case songs: (Inr songs)
      obtain r2 tr2 where r: "resolve w req songs tr1 = (r2, tr2)"
        by (cases "resolve w req songs tr1")
      show ?thesis
      proof (cases r2)
        case (Inl e)
        with run assms no_key a songs r show ?thesis using resolution by simp
      next
        case results: (Inr trackResults)
        obtain r3 tr3 where b: "build w req trackResults tr2 = (r3, tr3)"
          by (cases "build w req trackResults tr2")
        show ?thesis
        proof (cases r3)
          case (Inl e)
          with run assms no_key a songs r results b show ?thesis using building by simp
        next
          case (Inr c)
          with run assms no_key a songs r results b show ?thesis using created by simp
        qed
      qed
    qed
  qed
qed

lemma getAverageSetlist_trace:
  "\<exists>fs. snd (getAverageSetlist w params k tr) = tr @ fs \<and> (\<forall>c\<in>set fs. \<not> is_lookup c \<and> \<not> is_playlist_call c)"
proof -
  define a where "a = params_artistId params"
  define Y where "Y = (case params_year params of None \<Rightarrow> getFullYear w tr | Some y \<Rightarrow> y)"
  obtain r1 tr1 where first: "fetchSetlistForYear w a Y k tr = (r1, tr1)"
    by (cases "fetchSetlistForYear w a Y k tr")
  obtain r2 tr2 where retry: "fetchSetlistForYear w a (number_minus Y 1) k tr1 = (r2, tr2)"
    by (cases "fetchSetlistForYear w a (number_minus Y 1) k tr1")
  have tr1: "tr1 = tr @ [GetSetlists a Y k]"
    using fetchSetlistForYear_trace[of w a Y k tr] first by simp
  have tr2: "tr2 = tr @ [GetSetlists a Y k, GetSetlists a (number_minus Y 1) k]"
    using fetchSetlistForYear_trace[of w a "number_minus Y 1" k tr1] retry tr1 by simp
  have "snd (getAverageSetlist w params k tr) = tr1 \<or> snd (getAverageSetlist w params k tr) = tr2"
    using first retry
    by (cases r1; cases r2)
       (simp_all add: getAverageSetlist_def Let_def try_catch_def bind_def return_def throw_def
          a_def[symmetric] Y_def[symmetric])
  then show ?thesis
    using tr1 tr2 by auto
qed

lemma createPlaylist_trace:
  "\<exists>ps. snd (createPlaylist w p tr) = tr @ ps
        \<and> (\<forall>c\<in>set ps. is_playlist_call c)
        \<and> (\<forall>u b t. PostPlaylist u b t \<in> set ps \<longrightarrow> b = playlist_request (p_artistName p) (p_year p))
        \<and> (\<forall>created. fst (createPlaylist w p tr) = Inr created \<longrightarrow>
              tracksAdded created = length (p_trackUris p) \<and> year created = p_year p
              \<and> (\<exists>u t. PostPlaylist u (playlist_request (p_artistName p) (p_year p)) t \<in> set ps))"
  by (auto simp: createPlaylist_cases Let_def split: sum.splits)

lemma playlist_call_not_lookup: "is_playlist_call c \<Longrightarrow> \<not> is_lookup c"
  by (cases c) simp_all

lemma lookup_is_lookup: "is_lookup (lookup an tok s)" "\<not> is_playlist_call (lookup an tok s)"
  by (simp_all add: lookup_def)

lemma unexpected_token_rejected: "unexpected token_rejected = token_rejected"
  by (simp add: unexpected_def token_rejected_def)

text \<open>
  C4. When a lookup of a run of \<open>handleCreatePlaylist\<close> is answered with an authentication
  failure, that lookup is the last request of the run: it is the lookup for some song
  \<open>i\<close> of the ranked songs, the lookups issued are those for the songs up to \<open>i\<close>, no
  request of the playlist stage is issued, and the run fails with the authentication error,
  however many songs were resolved before.
\<close>

theorem authentication_failure_aborts_run:
  assumes run: "handleCreatePlaylist w req tr = (res, tr')"
    and k: "length tr \<le> k" "k < length tr'"
    and failed: "lookup_unauthorized w tr' k"
  shows "res = Inl token_rejected
       \<and> Suc k = length tr'
       \<and> (\<forall>c\<in>set (drop (length tr) tr'). \<not> is_playlist_call c)
       \<and> (\<exists>songs tr1 i. aggregate w req tr = (Inr songs, tr1) \<and> i < length songs \<and> k = length tr1 + i
             \<and> tr' = tr1 @ map (lookup (string_of (req_artistName req)) (string_of (req_accessToken req)))
                              (take (Suc i) songs))"
proof -
  let ?an = "string_of (req_artistName req)" and ?tok = "string_of (req_accessToken req)"
  have fetches: "\<exists>fs. tr1 = tr @ fs \<and> (\<forall>c\<in>set fs. \<not> is_lookup c \<and> \<not> is_playlist_call c)"
    if "aggregate w req tr = (r, tr1)" for r tr1
    using that getAverageSetlist_trace[of w "\<lparr>params_artistId = string_of (req_artistId req), params_year = req_year req\<rparr>"
        "string_of (SETLISTFM_API_KEY w)" tr]
    by (simp add: aggregate_def)
  have in_fetches: False
    if "tr' = tr @ fs @ rest" "\<forall>c\<in>set fs. \<not> is_lookup c \<and> \<not> is_playlist_call c" "k < length tr + length fs"
    for fs rest
  proof -
    have inside: "k - length tr < length fs"
      using that(3) k(1) by arith
    then have "tr' ! k = fs ! (k - length tr)"
      using that(1) k(1) by (simp add: nth_append)
    with inside have "\<not> is_lookup (tr' ! k)"
      using that(2) by simp
    then show False
      using failed lookup_unauthorized_is_lookup by blast
  qed
  have resolved: False
    if agg: "aggregate w req tr = (Inr songs, tr1)"
      and res: "resolve w req songs tr1 = (Inr trackResults, tr2)"
      and bld: "build w req trackResults tr2 = (r, tr')"
    for songs tr1 trackResults tr2 r
  proof -
    from fetches[OF agg] obtain fs where fs: "tr1 = tr @ fs"
      "\<forall>c\<in>set fs. \<not> is_lookup c \<and> \<not> is_playlist_call c"
      by auto
    have "matchAllTracks_loop w songs ?an ?tok [] tr1 = (Inr trackResults, tr2)"
      using res by (simp add: resolve_def matchAllTracks_def)
    from matchAllTracks_loop_returns[OF this]
    have tr2: "tr2 = tr1 @ map (lookup ?an ?tok) songs"
      and ok: "\<forall>j<length songs. \<not> lookup_unauthorized w tr2 (length tr1 + j)"
      by blast+
    obtain ps where ps: "tr' = tr2 @ ps" "\<forall>c\<in>set ps. is_playlist_call c"
      using createPlaylist_trace[of w "playlist_params w req trackResults tr2" tr2] bld
      by (auto simp: build_def)
    have "length tr1 \<le> k"
      using in_fetches[of fs "map (lookup ?an ?tok) songs @ ps"] fs tr2 ps(1)
      by (cases "k < length tr + length fs") auto
    moreover have "\<not> k < length tr2"
    proof
      assume below: "k < length tr2"
      with \<open>length tr1 \<le> k\<close> tr2 obtain j where "k = length tr1 + j" "j < length songs"
        by (metis add_diff_inverse_nat length_append length_map nat_add_left_cancel_less not_less)
      with ok have "\<not> lookup_unauthorized w tr2 k" by simp
      then show False
        using failed ps(1) lookup_unauthorized_append[OF below, of w ps] by simp
    qed
    moreover have "\<not> is_lookup (tr' ! k)" if "\<not> k < length tr2"
    proof -
      have inside: "k - length tr2 < length ps"
        using that k(2) ps(1) by simp
      then have "tr' ! k = ps ! (k - length tr2)"
        using that ps(1) by (simp add: nth_append)
      with inside show ?thesis
        using ps(2) playlist_call_not_lookup by simp
    qed
    ultimately show False
      using failed lookup_unauthorized_is_lookup by blast
  qed
  from run show ?thesis
  proof (cases rule: handleCreatePlaylist_run)
    case rejected
    with k show ?thesis by simp
  next
    case (aggregation e)
    from fetches[OF aggregation(1)] obtain fs where "tr' = tr @ fs @ []"
      "\<forall>c\<in>set fs. \<not> is_lookup c \<and> \<not> is_playlist_call c"
      by auto
    from in_fetches[OF this] k this(1) show ?thesis by simp
  next
    case (resolution songs tr1 e)
    from fetches[OF resolution(1)] obtain fs where fs: "tr1 = tr @ fs"
      "\<forall>c\<in>set fs. \<not> is_lookup c \<and> \<not> is_playlist_call c"
      by auto
    have "matchAllTracks_loop w songs ?an ?tok [] tr1 = (Inl e, tr')"
      using resolution(2) by (simp add: resolve_def matchAllTracks_def)
    from matchAllTracks_loop_throws[OF this]
    obtain i where e: "e = token_rejected" and i: "i < length songs"
      "tr' = tr1 @ map (lookup ?an ?tok) (take (Suc i) songs)"
      "\<forall>j<i. \<not> lookup_unauthorized w tr' (length tr1 + j)"
      by blast
    have len: "length tr' = length tr1 + Suc i"
      using i(1,2) by simp
    have "length tr1 \<le> k"
      using in_fetches[of fs "map (lookup ?an ?tok) (take (Suc i) songs)"] fs i(2)
      by (cases "k < length tr + length fs") auto
    then obtain j where j: "k = length tr1 + j"
      using le_Suc_ex by blast
    with len k(2) have "j < Suc i" by simp
    moreover have "\<not> j < i"
      using i(3) j failed by blast
    ultimately have "j = i" by simp
    with j have at: "k = length tr1 + i" by simp
    have "\<forall>c\<in>set (drop (length tr) tr'). \<not> is_playlist_call c"
      using fs i(2) by (auto simp: lookup_is_lookup dest: in_set_takeD)
    with resolution e i at len show ?thesis
      by (auto simp: unexpected_token_rejected)
  next
    case (building songs tr1 trackResults tr2 e)
    from resolved[OF building(1,2,3)] show ?thesis ..
  next
    case (created songs tr1 trackResults tr2 c)
    from resolved[OF created(1,2,3)] show ?thesis ..
  qed
qed

text \<open>
  C5. The \<open>tracksAdded\<close> of a successful run is the number of results with \<open>found\<close> true
  that the resolution stage of that run returned.
\<close>

theorem tracksAdded_counts_found_results:
  assumes run: "handleCreatePlaylist w req tr = (Inr created, tr')"
  shows "\<exists>songs tr1 trackResults tr2.
           aggregate w req tr = (Inr songs, tr1)
         \<and> resolve w req songs tr1 = (Inr trackResults, tr2)
         \<and> tracksAdded created = length (filter found trackResults)"
  using run
proof (cases rule: handleCreatePlaylist_run)
  case (created songs tr1 trackResults tr2 c)
  have "matchAllTracks_loop w songs (string_of (req_artistName req)) (string_of (req_accessToken req)) [] tr1
          = (Inr trackResults, tr2)"
    using created(2) by (simp add: resolve_def matchAllTracks_def)
  from matchAllTracks_loop_returns[OF this]
  have "\<forall>r\<in>set trackResults. found r \<longleftrightarrow> trackUri r \<noteq> None"
    by auto
  then have "filter (\<lambda>result. found result \<and> trackUri result \<noteq> None) trackResults = filter found trackResults"
    by (intro filter_cong) auto
  moreover have "tracksAdded c = length (p_trackUris (playlist_params w req trackResults tr2))"
    using createPlaylist_trace[of w "playlist_params w req trackResults tr2" tr2] created(3)
    by (auto simp: build_def)
  ultimately have "tracksAdded created = length (filter found trackResults)"
    using created(4) by (simp add: playlist_params_def)
  with created(1,2) show ?thesis by blast
qed simp_all

text \<open>
  C10. With the clock fixed during the run, the \<open>year\<close> of the result of a successful run
  and the year in the name of the playlist it creates are the requested year, or the
  current year when the request has none, also when the songs come from the year before.
\<close>

theorem reported_year_is_requested_year:
  assumes run: "handleCreatePlaylist w req tr = (Inr created, tr')"
    and clock: "\<forall>h. getFullYear w h = thisYear"
    and Y: "Y = (case req_year req of None \<Rightarrow> thisYear | Some y \<Rightarrow> y)"
  shows "year created = Y
       \<and> (\<forall>userId body tok. PostPlaylist userId body tok \<in> set (drop (length tr) tr') \<longrightarrow>
            body_name body = playlist_title (string_of (req_artistName req)) Y)
       \<and> (\<exists>userId body tok. PostPlaylist userId body tok \<in> set (drop (length tr) tr'))"
  using run
proof (cases rule: handleCreatePlaylist_run)
  case (created songs tr1 trackResults tr2 c)
  let ?p = "playlist_params w req trackResults tr2"
  have p: "p_year ?p = Y" "p_artistName ?p = string_of (req_artistName req)"
    using clock Y by (simp_all add: playlist_params_def split: option.splits)
  obtain fs where fs: "tr1 = tr @ fs" "\<forall>c\<in>set fs. \<not> is_lookup c \<and> \<not> is_playlist_call c"
    using created(1) getAverageSetlist_trace[of w "\<lparr>params_artistId = string_of (req_artistId req), params_year = req_year req\<rparr>"
        "string_of (SETLISTFM_API_KEY w)" tr]
    by (auto simp: aggregate_def)
  have "matchAllTracks_loop w songs (string_of (req_artistName req)) (string_of (req_accessToken req)) [] tr1
          = (Inr trackResults, tr2)"
    using created(2) by (simp add: resolve_def matchAllTracks_def)
  from matchAllTracks_loop_returns[OF this]
  have tr2: "tr2 = tr1 @ map (lookup (string_of (req_artistName req)) (string_of (req_accessToken req))) songs"
    by blast
  obtain ps where ps: "tr' = tr2 @ ps"
    "\<forall>u b t. PostPlaylist u b t \<in> set ps \<longrightarrow> b = playlist_request (p_artistName ?p) (p_year ?p)"
    "year c = p_year ?p"
    "\<exists>u t. PostPlaylist u (playlist_request (p_artistName ?p) (p_year ?p)) t \<in> set ps"
    using createPlaylist_trace[of w ?p tr2] created(3)
    by (auto simp: build_def)
  have new: "set (drop (length tr) tr') = set fs \<union> lookup (string_of (req_artistName req)) (string_of (req_accessToken req)) ` set songs \<union> set ps"
    using fs(1) tr2 ps(1) by auto
  have "body_name b = playlist_title (string_of (req_artistName req)) Y"
    if "PostPlaylist u b t \<in> set (drop (length tr) tr')" for u b t
  proof -
    from that have "PostPlaylist u b t \<in> set ps"
      using fs(2) unfolding new by (auto simp: lookup_def)
    with ps(2) p have "b = playlist_request (string_of (req_artistName req)) Y"
      by auto
    then show ?thesis
      by (simp add: playlist_request_def)
  qed
  then have "\<forall>userId body tok. PostPlaylist userId body tok \<in> set (drop (length tr) tr') \<longrightarrow>
            body_name body = playlist_title (string_of (req_artistName req)) Y"
    by blast
  moreover have "\<exists>userId body tok. PostPlaylist userId body tok \<in> set (drop (length tr) tr')"
    using ps(4) unfolding new by blast
  ultimately show ?thesis
    using created(4) ps(3) p(1) by simp
qed simp_all

section \<open>Runs in the example world\<close>

lemma example_valid:
  "\<not> blank (req_accessToken (example_request yr))" "\<not> blank (req_artistId (example_request yr))"
  "\<not> blank (req_artistName (example_request yr))" "\<not> falsy (SETLISTFM_API_KEY (example_world r))"
  by (simp_all add: example_request_def example_world_def blank_def falsy_def trim_def lit_def is_whitespace_def)

lemma example_clock_and_key:
  "getFullYear (example_world r) h = 2024" "SETLISTFM_API_KEY (example_world r) = Some (lit ''k'')"
  by (simp_all add: example_world_def)

lemma example_aggregate:
  "aggregate (example_world r) (example_request None) [] = (Inr example_songs, example_fetches)"
  by (simp add: aggregate_def getAverageSetlist_def Let_def try_catch_def bind_def return_def
      example_fetch_other example_fetch_2023 example_ranked example_songs_def example_fetches_def
      example_request_def string_of_def example_clock_and_key number_minus_safe safe_integer_def)

lemma example_resolve:
  "resolve (example_world r) (example_request yr) example_songs tr =
     (case r of
        Inr response \<Rightarrow>
          (Inr [example_track ''A'',
                if items response \<noteq> []
                then \<lparr>songName = lit ''B'', trackUri = Some (uri (items response ! 0)), found = True\<rparr>
                else unresolved (lit ''B''),
                example_track ''C''], tr @ example_lookups)
      | Inl e \<Rightarrow>
          if isAxiosError e \<and> response_status e = Some 401
          then (Inl token_rejected, tr @ take 2 example_lookups)
          else (Inr [example_track ''A'', unresolved (lit ''B''), example_track ''C''], tr @ example_lookups))"
  by (simp add: resolve_def matchAllTracks_def example_songs_def example_search_A example_search_B
      example_search_C example_lookups_def lookup_def example_request_def string_of_def
      split: sum.splits)

lemma example_createPlaylist:
  "createPlaylist (example_world r) \<lparr>p_artistName = lit ''M'', p_year = y, p_trackUris = uris, p_accessToken = lit ''t''\<rparr> tr
     = (Inr \<lparr>playlistId = lit ''p1'', tracksAdded = length uris, year = y\<rparr>, tr @ example_playlist_calls y uris)"
  by (simp add: createPlaylist_cases Let_def example_world_def example_playlist_calls_def)

lemma example_build:
  "build (example_world r) (example_request None) [example_track ''A'', unresolved (lit ''B''), example_track ''C''] tr
     = (Inr \<lparr>playlistId = lit ''p1'', tracksAdded = 2, year = 2024\<rparr>, tr @ example_playlist_calls 2024 example_uris)"
proof -
  have "playlist_params (example_world r) (example_request None)
          [example_track ''A'', unresolved (lit ''B''), example_track ''C''] tr
        = \<lparr>p_artistName = lit ''M'', p_year = 2024, p_trackUris = example_uris, p_accessToken = lit ''t''\<rparr>"
    by (simp add: playlist_params_def example_request_def example_track_def unresolved_def
        example_uris_def string_of_def example_clock_and_key)
  then show ?thesis
    by (simp add: build_def example_createPlaylist example_uris_def)
qed

lemma example_run_partial:
  "r = no_track \<or> r = status_error 500 \<Longrightarrow>
   handleCreatePlaylist (example_world r) (example_request None) []
     = (Inr \<lparr>playlistId = lit ''p1'', tracksAdded = 2, year = 2024\<rparr>,
        example_fetches @ example_lookups @ example_playlist_calls 2024 example_uris)"
  by (auto simp: handleCreatePlaylist_valid example_valid example_aggregate example_resolve example_build
      no_track_def status_error_def)

lemma example_run_expired:
  "handleCreatePlaylist (example_world (status_error 401)) (example_request None) []
     = (Inl token_rejected, example_fetches @ take 2 example_lookups)"
  by (simp add: handleCreatePlaylist_valid example_valid example_aggregate example_resolve
      status_error_def unexpected_token_rejected)

theorem authentication_failure_aborts_run_witness:
  "handleCreatePlaylist (example_world (status_error 401)) (example_request None) []
     = (Inl token_rejected, example_fetches @ take 2 example_lookups)
   \<and> length ([] :: call list) \<le> 3 \<and> 3 < length (example_fetches @ take 2 example_lookups)
   \<and> lookup_unauthorized (example_world (status_error 401)) (example_fetches @ take 2 example_lookups) 3
   \<and> Suc 3 = length (example_fetches @ take 2 example_lookups)
   \<and> filter is_playlist_call (drop (length ([] :: call list)) (example_fetches @ take 2 example_lookups)) = []
   \<and> (\<exists>songs tr1 i. aggregate (example_world (status_error 401)) (example_request None) [] = (Inr songs, tr1)
          \<and> i < length songs \<and> 3 = length tr1 + i
          \<and> example_fetches @ take 2 example_lookups
             = tr1 @ map (lookup (string_of (req_artistName (example_request None)))
                            (string_of (req_accessToken (example_request None))))
                        (take (Suc i) songs))"
proof -
  let ?w = "example_world (status_error 401)" and ?tr = "example_fetches @ take 2 example_lookups"
  have bounds: "length ([] :: call list) \<le> 3" "3 < length ?tr"
    by (simp_all add: example_fetches_def example_lookups_def example_songs_def)
  have "lookup_unauthorized ?w
          ((example_fetches @ [lookup (lit ''M'') (lit ''t'') (example_songs ! 0)])
             @ GetSearch (search_query (lit ''B'') (lit ''M'')) 1 (lit ''t'') # [])
          (length (example_fetches @ [lookup (lit ''M'') (lit ''t'') (example_songs ! 0)]))"
    unfolding example_lookup_B_at by (simp add: status_error_def unauthorized_def)
  then have failed: "lookup_unauthorized ?w ?tr 3"
    by (simp add: example_fetches_def example_lookups_def example_songs_def lookup_def numeral_3_eq_3)
  note aborted = authentication_failure_aborts_run[OF example_run_expired bounds failed]
  then have "filter is_playlist_call (drop (length ([] :: call list)) ?tr) = []"
    by (simp only: filter_empty_conv) blast
  with aborted show ?thesis
    using example_run_expired bounds failed by simp
qed

theorem tracksAdded_counts_found_results_witness:
  "handleCreatePlaylist (example_world no_track) (example_request None) []
     = (Inr \<lparr>playlistId = lit ''p1'', tracksAdded = 2, year = 2024\<rparr>,
        example_fetches @ example_lookups @ example_playlist_calls 2024 example_uris)
   \<and> (\<exists>songs tr1 trackResults tr2.
         aggregate (example_world no_track) (example_request None) [] = (Inr songs, tr1)
       \<and> resolve (example_world no_track) (example_request None) songs tr1 = (Inr trackResults, tr2)
       \<and> tracksAdded \<lparr>playlistId = lit ''p1'', tracksAdded = 2, year = 2024\<rparr> = length (filter found trackResults))"
proof -
  have run: "handleCreatePlaylist (example_world no_track) (example_request None) []
     = (Inr \<lparr>playlistId = lit ''p1'', tracksAdded = 2, year = 2024\<rparr>,
        example_fetches @ example_lookups @ example_playlist_calls 2024 example_uris)"
    by (simp add: example_run_partial)
  from tracksAdded_counts_found_results[OF run] run show ?thesis
    by simp
qed

theorem reported_year_is_requested_year_witness:
  "handleCreatePlaylist (example_world no_track) (example_request None) []
     = (Inr \<lparr>playlistId = lit ''p1'', tracksAdded = 2, year = 2024\<rparr>,
        example_fetches @ example_lookups @ example_playlist_calls 2024 example_uris)
   \<and> (\<forall>h. getFullYear (example_world no_track) h = 2024)
   \<and> GetSetlists (lit ''a1'') 2023 (lit ''k'') \<in> set example_fetches
   \<and> year \<lparr>playlistId = lit ''p1'', tracksAdded = 2, year = 2024\<rparr> = 2024
   \<and> PostPlaylist (lit ''u1'') (playlist_request (lit ''M'') 2024) (lit ''t'')
        \<in> set (drop (length ([] :: call list))
             (example_fetches @ example_lookups @ example_playlist_calls 2024 example_uris))
   \<and> body_name (playlist_request (lit ''M'') 2024)
        = playlist_title (string_of (req_artistName (example_request None))) 2024
   \<and> playlist_title (string_of (req_artistName (example_request None))) 2024
        = lit ''M'' @ [0x0020, 0x2014, 0x0020] @ lit ''Average Setlist 2024''"
proof -
  let ?tr = "example_fetches @ example_lookups @ example_playlist_calls 2024 example_uris"
  have run: "handleCreatePlaylist (example_world no_track) (example_request None) []
     = (Inr \<lparr>playlistId = lit ''p1'', tracksAdded = 2, year = 2024\<rparr>, ?tr)"
    by (simp add: example_run_partial)
  have clock: "\<forall>h. getFullYear (example_world no_track) h = 2024"
    by (simp add: example_clock_and_key)
  have Y: "2024 = (case req_year (example_request None) of None \<Rightarrow> 2024 | Some y \<Rightarrow> y)"
    by (simp add: example_request_def)
  have fallback: "GetSetlists (lit ''a1'') 2023 (lit ''k'') \<in> set example_fetches"
    by (simp add: example_fetches_def)
  have issued: "PostPlaylist (lit ''u1'') (playlist_request (lit ''M'') 2024) (lit ''t'')
                  \<in> set (drop (length ([] :: call list)) ?tr)"
    by (simp add: example_playlist_calls_def)
  have title: "playlist_title (string_of (req_artistName (example_request None))) 2024
                 = lit ''M'' @ [0x0020, 0x2014, 0x0020] @ lit ''Average Setlist 2024''"
    by (simp add: playlist_title_def number_toString_def digits.simps lit_def example_request_def string_of_def)
  from reported_year_is_requested_year[OF run clock Y] issued
  have "body_name (playlist_request (lit ''M'') 2024)
          = playlist_title (string_of (req_artistName (example_request None))) 2024"
    by blast
  with run clock fallback issued title show ?thesis
    by simp
qed


theorem searchSpotifyTrack_tolerates_lookup_failure_witness:
  "spotify_search (example_world (status_error 500)) [] (search_query (lit ''B'') (lit ''M'')) 1 (lit ''t'')
     = Inl (AxiosError (lit ''Request failed'') (Some 500))
   \<and> \<not> (isAxiosError (AxiosError (lit ''Request failed'') (Some 500))
         \<and> response_status (AxiosError (lit ''Request failed'') (Some 500)) = Some 401)
   \<and> searchSpotifyTrack (example_world (status_error 500)) (lit ''B'') (lit ''M'') (lit ''t'') []
       = (Inr \<lparr>songName = lit ''B'', trackUri = None, found = False\<rparr>,
          [] @ [GetSearch (search_query (lit ''B'') (lit ''M'')) 1 (lit ''t'')])
   \<and> matchAllTracks_loop (example_world (status_error 500))
         [\<lparr>name = lit ''B'', position = 2\<rparr>, \<lparr>name = lit ''C'', position = 3\<rparr>] (lit ''M'') (lit ''t'') [] []
       = (Inr [\<lparr>songName = lit ''B'', trackUri = None, found = False\<rparr>, example_track ''C''],
          [GetSearch (search_query (lit ''B'') (lit ''M'')) 1 (lit ''t''),
           GetSearch (search_query (lit ''C'') (lit ''M'')) 1 (lit ''t'')])"
proof -
  let ?w = "example_world (status_error 500)"
  have failure: "spotify_search ?w [] (search_query (lit ''B'') (lit ''M'')) 1 (lit ''t'')
     = Inl (AxiosError (lit ''Request failed'') (Some 500))"
    by (simp add: example_world_def example_catalog_def status_error_def)
  have other: "\<not> (isAxiosError (AxiosError (lit ''Request failed'') (Some 500))
         \<and> response_status (AxiosError (lit ''Request failed'') (Some 500)) = Some 401)"
    by simp
  note tolerated = searchSpotifyTrack_tolerates_lookup_failure[OF failure other]
  then have "matchAllTracks_loop ?w [\<lparr>name = lit ''B'', position = 2\<rparr>, \<lparr>name = lit ''C'', position = 3\<rparr>]
                 (lit ''M'') (lit ''t'') [] []
               = matchAllTracks_loop ?w [\<lparr>name = lit ''C'', position = 3\<rparr>] (lit ''M'') (lit ''t'')
                   ([] @ [\<lparr>songName = lit ''B'', trackUri = None, found = False\<rparr>])
                   ([] @ [GetSearch (search_query (lit ''B'') (lit ''M'')) 1 (lit ''t'')])"
    by (simp only: SetlistSong.simps)
  also have "\<dots> = (Inr [\<lparr>songName = lit ''B'', trackUri = None, found = False\<rparr>, example_track ''C''],
          [GetSearch (search_query (lit ''B'') (lit ''M'')) 1 (lit ''t''),
           GetSearch (search_query (lit ''C'') (lit ''M'')) 1 (lit ''t'')])"
    by (simp add: example_search_C)
  finally show ?thesis
    using tolerated failure other by simp
qed

theorem createPlaylist_population_witness:
  "spotify_me (example_world no_track) [] (lit ''t'') = Inr \<lparr>user_id = lit ''u1'', display_name = lit ''U''\<rparr>
   \<and> spotify_create (example_world no_track) [GetMe (lit ''t'')] (lit ''u1'') (playlist_request (lit ''M'') 2024) (lit ''t'')
       = Inr \<lparr>playlist_id = lit ''p1'', playlist_name = playlist_title (lit ''M'') 2024, playlist_public = False\<rparr>
   \<and> createPlaylist (example_world no_track)
         \<lparr>p_artistName = lit ''M'', p_year = 2024, p_trackUris = [], p_accessToken = lit ''t''\<rparr> []
       = (Inr \<lparr>playlistId = lit ''p1'', tracksAdded = 0, year = 2024\<rparr>,
          [GetMe (lit ''t''), PostPlaylist (lit ''u1'') (playlist_request (lit ''M'') 2024) (lit ''t'')])
   \<and> snd (createPlaylist (example_world no_track)
         \<lparr>p_artistName = lit ''M'', p_year = 2024, p_trackUris = example_uris, p_accessToken = lit ''t''\<rparr> [])
       = [GetMe (lit ''t''), PostPlaylist (lit ''u1'') (playlist_request (lit ''M'') 2024) (lit ''t''),
          PostTracks (lit ''p1'') example_uris (lit ''t'')]"
proof -
  let ?w = "example_world no_track"
  have me: "spotify_me ?w [] (lit ''t'') = Inr \<lparr>user_id = lit ''u1'', display_name = lit ''U''\<rparr>"
    by (simp add: example_world_def)
  have create: "spotify_create ?w [GetMe (lit ''t'')] (lit ''u1'') (playlist_request (lit ''M'') 2024) (lit ''t'')
       = Inr \<lparr>playlist_id = lit ''p1'', playlist_name = playlist_title (lit ''M'') 2024, playlist_public = False\<rparr>"
    by (simp add: example_world_def playlist_request_def)
  have some: "example_uris \<noteq> []"
    by (simp add: example_uris_def)
  show ?thesis
    using me create some
      createPlaylist_population[of "\<lparr>p_artistName = lit ''M'', p_year = 2024, p_trackUris = [], p_accessToken = lit ''t''\<rparr>" "[]" ?w]
      createPlaylist_population[of "\<lparr>p_artistName = lit ''M'', p_year = 2024, p_trackUris = example_uris, p_accessToken = lit ''t''\<rparr>" "[]" ?w]
    by simp
qed

theorem handleCreatePlaylist_rejects_blank_fields_witness:
  "blank (req_artistId ((example_request None)\<lparr>req_artistId := Some (lit ''  '')\<rparr>))
   \<and> handleCreatePlaylist (example_world no_track) ((example_request None)\<lparr>req_artistId := Some (lit ''  '')\<rparr>) []
       = (Inl (ValidationError (lit ''Artist ID is required'') (Some [(''field'', Str (lit ''artistId''))])), [])
   \<and> blank (req_accessToken ((example_request None)\<lparr>req_accessToken := None\<rparr>))
   \<and> (\<exists>msg. handleCreatePlaylist (example_world no_track) ((example_request None)\<lparr>req_accessToken := None\<rparr>) []
       = (Inl (ValidationError msg (Some [(''field'', Str (lit ''accessToken''))])), []))"
proof -
  let ?r1 = "(example_request None)\<lparr>req_artistId := Some (lit ''  '')\<rparr>"
  let ?r2 = "(example_request None)\<lparr>req_accessToken := None\<rparr>"
  have b1: "blank (req_artistId ?r1)" "\<not> blank (req_accessToken ?r1)" "\<not> blank (req_artistName ?r1)"
    by (simp_all add: example_request_def blank_def trim_def lit_def is_whitespace_def)
  have b2: "blank (req_accessToken ?r2)" "\<not> blank (req_artistId ?r2)" "\<not> blank (req_artistName ?r2)"
    by (simp_all add: example_request_def blank_def trim_def lit_def is_whitespace_def)
  have distinct_fields: "lit ''accessToken'' \<noteq> lit ''artistId''" "lit ''artistName'' \<noteq> lit ''artistId''"
    by (simp_all add: lit_def)
  obtain msg where "handleCreatePlaylist (example_world no_track) ?r1 []
       = (Inl (ValidationError msg (Some [(''field'', Str (lit ''artistId''))])), [])"
    using handleCreatePlaylist_rejects_blank_fields[of ?r1 "example_world no_track" "[]"] b1 by auto
  moreover have "handleCreatePlaylist (example_world no_track) ?r1 []
       = (Inl (ValidationError (lit ''Artist ID is required'') (Some [(''field'', Str (lit ''artistId''))])), [])"
    using b1 by (simp add: handleCreatePlaylist_invalid)
  moreover obtain msg' where "handleCreatePlaylist (example_world no_track) ?r2 []
       = (Inl (ValidationError msg' (Some [(''field'', Str (lit ''accessToken''))])), [])"
    using handleCreatePlaylist_rejects_blank_fields[of ?r2 "example_world no_track" "[]"] b2 by auto
  ultimately show ?thesis
    using b1(1) b2(1) by blast
qed

end
